theory Spec2Isabelle
  imports
    Main
    "HOL-Library.Char_ord"
    "HOL-Library.List_Lexorder"
    "HOL-Library.Sublist"
    "HOL-Library.Finite_Map"
    "HOL-Library.Log_Nat"
begin

section \<open>The translations script (scripts/translations/main.go)\<close>

text \<open>
  The script is modelled function by function.  Go strings and byte slices are
  \<^typ>\<open>string\<close> (lists of bytes), ordered bytewise and lexicographically as Go
  orders them.  A Go map is a finite map; the order in which \<open>range\<close> yields its keys is
  not fixed by the language, so it never enters a definition except through an explicit
  parameter.  Everything the script reaches outside its own code (the file system, the
  JSON decoder, the network, the standard library's URL and flag parsers) is a field of
  the record \<open>sys\<close>.  Output is a list of events, in the order produced.
\<close>

subsection \<open>Constants\<close>

definition twoskyConfFile :: string where
  "twoskyConfFile = ''./.twosky.json''"

definition localesDir :: string where
  "localesDir = ''./client/src/__locales''"

definition defaultBaseFile :: string where
  "defaultBaseFile = ''en.json''"

definition defaultProjectID :: string where
  "defaultProjectID = ''home''"

definition srcDir :: string where
  "srcDir = ''./client/src''"

definition twoskyURI :: string where
  "twoskyURI = ''https://twosky.int.agrd.dev/api/v1''"

definition readLimit :: nat where
  "readLimit = 1 * 1024 * 1024"

definition nl :: string where
  "nl = [CHR 0x0A]"

subsection \<open>Data\<close>

type_synonym langCode = string
type_synonym languages = "(langCode, string) fmap"
type_synonym textLabel = string
type_synonym locales = "(textLabel, string) fmap"

record twoskyConf =
  Languages :: languages
  ProjectID :: string
  BaseLangcode :: langCode
  LocalizableFiles :: "string list"

text \<open>
  Errors are values.  Each constructor stands for one place where the script or a library
  it calls makes an error; \<open>Wrap p e\<close> is \<open>fmt.Errorf("p: %w", e)\<close>.
\<close>

datatype error =
    ErrOS string
  | ErrJSON
  | ErrURL
  | ErrConfEmpty string
  | ErrLanguageEmpty
  | ErrTransport
  | ErrStatus string int
  | ErrStatusNotOK int
  | ErrLimitReached nat
  | ErrBodyRead
  | ErrIndexOutOfRange
  | ErrNilDeref
  | Wrap string error

datatype event =
    Stdout string
  | LogInfo string error
  | LogError string error
  | HttpGet string
  | HttpPost string string
  | FileWrite string string

text \<open>How a command ends: it returns (an error or nil), or the process has exited.\<close>

datatype ending =
    Returned "error option"
  | Exited int
  | Panicked error

text \<open>One visit of \<open>filepath.Walk\<close>: the path, and the access error or whether it is a directory.\<close>

type_synonym walkEntry = "string \<times> (error + bool)"

text \<open>
  \<open>url.URL\<close>, field by field.  \<open>User\<close> is a pointer to an immutable \<open>Userinfo\<close>
  (user name, password, whether a password is set); copying the struct shares it.
\<close>

record URL =
  Scheme :: string
  Opaque :: string
  User :: "(string \<times> string \<times> bool) option"
  Host :: string
  Path :: string
  RawPath :: string
  OmitHost :: bool
  ForceQuery :: bool
  RawQuery :: string
  Fragment :: string
  RawFragment :: string

text \<open>
  The store of URL structs: a pointer \<open>*url.URL\<close> is an index into it, allocation appends,
  and a pointer outside it is nil or dangling.
\<close>

type_synonym addr = nat
type_synonym heap = "URL list"

text \<open>\<open>url.Values\<close> is \<open>map[string][]string\<close>.\<close>

type_synonym Values = "(string, string list) fmap"

text \<open>
  An \<open>io.Reader\<close> by what it delivers: the bytes it yields, and the error that ends them
  (none for a clean end of file).
\<close>

record reader =
  content :: string
  failure :: "error option"

record response =
  StatusCode :: int
  Body :: reader

text \<open>
  The world outside the script.  \<open>flagParse\<close> is the \<open>flag\<close> package on the download
  command's arguments: the value of \<open>-n\<close> (1 when absent), or nothing when parsing fails
  or help is asked for.  \<open>rangeOrder\<close> is the order in which \<open>range\<close> yields the keys of
  the language map in the run at hand.
\<close>

record sys =
  osArgs :: "string list"
  getenv :: "string \<Rightarrow> string"
  readFile :: "string \<Rightarrow> error + string"
  writeFile :: "string \<Rightarrow> string \<Rightarrow> error option"
  walkDir :: "string \<Rightarrow> walkEntry list"
  jsonConf :: "string \<Rightarrow> error + twoskyConf list"
  jsonLocales :: "string \<Rightarrow> error + locales"
  urlParse :: "string \<Rightarrow> error + URL"
  joinPath :: "URL \<Rightarrow> string \<Rightarrow> URL"
  urlString :: "URL \<Rightarrow> string"
  flagParse :: "string list \<Rightarrow> int option"
  rangeOrder :: "languages \<Rightarrow> langCode list"
  httpGet :: "string \<Rightarrow> error + response"
  httpPost :: "string \<Rightarrow> string \<Rightarrow> string \<Rightarrow> error + response"

subsection \<open>Library functions on strings and paths\<close>

text \<open>\<open>bytes.Contains(b, sub)\<close>: \<open>sub\<close> occurs in \<open>b\<close> as a contiguous run of bytes.\<close>

definition bytes_Contains :: "string \<Rightarrow> string \<Rightarrow> bool" where
  "bytes_Contains b sub = sublist sub b"

text \<open>\<open>strings.HasPrefix(s, p)\<close>.\<close>

definition HasPrefix :: "string \<Rightarrow> string \<Rightarrow> bool" where
  "HasPrefix s p = prefix p s"

text \<open>
  \<open>filepath.Ext\<close> scans from the last byte towards the first, stops at a separator, and
  returns the suffix that starts at the first dot it meets.
\<close>

fun extScan :: "string \<Rightarrow> string \<Rightarrow> string" where
  "extScan acc [] = []"
| "extScan acc (c # cs) =
     (if c = CHR ''/'' then []
      else if c = CHR ''.'' then c # acc
      else extScan (c # acc) cs)"

definition filepath_Ext :: "string \<Rightarrow> string" where
  "filepath_Ext path = extScan [] (rev path)"

text \<open>
  \<open>filepath.Clean\<close> on a Unix path, element by element: empty elements and \<open>.\<close> are
  dropped, \<open>..\<close> removes the element before it when there is one that is not itself a
  kept \<open>..\<close>, is dropped at the root, and is kept at the start of a relative path.
\<close>

fun splitOn :: "char \<Rightarrow> string \<Rightarrow> string list" where
  "splitOn c [] = [[]]"
| "splitOn c (x # xs) =
     (if x = c then [] # splitOn c xs
      else (case splitOn c xs of
              [] \<Rightarrow> [[x]]
            | e # es \<Rightarrow> (x # e) # es))"

fun cleanElems :: "bool \<Rightarrow> string list \<Rightarrow> string list \<Rightarrow> string list" where
  "cleanElems rooted out [] = out"
| "cleanElems rooted out (e # es) =
     (if e = [] \<or> e = ''.'' then cleanElems rooted out es
      else if e = ''..'' then
        (if out \<noteq> [] \<and> last out \<noteq> ''..'' then cleanElems rooted (butlast out) es
         else if \<not> rooted then cleanElems rooted (out @ [''..'']) es
         else cleanElems rooted out es)
      else cleanElems rooted (out @ [e]) es)"

fun joinWith :: "string \<Rightarrow> string list \<Rightarrow> string" where
  "joinWith sep [] = []"
| "joinWith sep [e] = e"
| "joinWith sep (e # es) = e @ sep @ joinWith sep es"

definition filepath_Clean :: "string \<Rightarrow> string" where
  "filepath_Clean path =
     (if path = [] then ''.''
      else
        (let rooted = (hd path = CHR ''/'');
             out = cleanElems rooted [] (splitOn CHR ''/'' path);
             s = (if rooted then ''/'' else []) @ joinWith ''/'' out
         in if s = [] then ''.'' else s))"

text \<open>
  \<open>filepath.Join\<close>: the elements from the first non-empty one on, joined by the separator
  and cleaned; the empty string when every element is empty.
\<close>

definition filepath_Join :: "string list \<Rightarrow> string" where
  "filepath_Join elem =
     (case dropWhile (\<lambda>e. e = []) elem of
        [] \<Rightarrow> []
      | es \<Rightarrow> filepath_Clean (joinWith ''/'' es))"

subsection \<open>Usage\<close>

definition usageStr :: string where
  "usageStr =
     ''Usage: go run main.go <command> [<args>]'' @ nl @
     ''Commands:'' @ nl @
     ''  help'' @ nl @
     ''        Print usage.'' @ nl @
     ''  summary'' @ nl @
     ''        Print summary.'' @ nl @
     ''  download [-n <count>]'' @ nl @
     ''        Download translations. count is a number of concurrent downloads.'' @ nl @
     ''  unused'' @ nl @
     ''        Print unused strings.'' @ nl @
     ''  upload'' @ nl @
     ''        Upload translations.''"

text \<open>\<open>usage\<close> prints and exits: with code 1 when \<open>addStr\<close> is not empty, with code 0 otherwise.\<close>

definition usage :: "string \<Rightarrow> event list \<times> ending" where
  "usage addStr =
     (if addStr \<noteq> [] then ([Stdout (addStr @ nl @ usageStr @ nl)], Exited 1)
      else ([Stdout (usageStr @ nl)], Exited 0))"

subsection \<open>Reading the configuration\<close>

text \<open>
  The loop of \<open>readTwoskyConf\<close> ranges over the values of the language map, the display
  names, and fails on an empty one.
\<close>

definition readTwoskyConf :: "sys \<Rightarrow> error + twoskyConf" where
  "readTwoskyConf s =
     (case readFile s twoskyConfFile of
        Inl err \<Rightarrow> Inl err
      | Inr b \<Rightarrow>
          (case jsonConf s b of
             Inl err \<Rightarrow> Inl (Wrap (''unmarshalling '' @ twoskyConfFile) err)
           | Inr tsc \<Rightarrow>
               (case tsc of
                  [] \<Rightarrow> Inl (ErrConfEmpty twoskyConfFile)
                | conf # _ \<Rightarrow>
                    if [] |\<in>| fmran (Languages conf) then Inl ErrLanguageEmpty
                    else Inr conf)))"

subsection \<open>Reading a locale file\<close>

definition readLocales :: "sys \<Rightarrow> string \<Rightarrow> error + locales" where
  "readLocales s fn =
     (case readFile s fn of
        Inl err \<Rightarrow> Inl err
      | Inr b \<Rightarrow>
          (case jsonLocales s b of
             Inl err \<Rightarrow> Inl (Wrap (''unmarshalling '' @ fn) err)
           | Inr loc \<Rightarrow> Inr loc))"

subsection \<open>The unused command\<close>

definition knownUsed :: "textLabel list" where
  "knownUsed =
     [''blocking_mode_refused'', ''blocking_mode_nxdomain'', ''blocking_mode_custom_ip'']"

text \<open>
  The loop over the file names of \<open>removeUnused\<close>.  A file that cannot be read ends the
  loop with its error.  The inner loop deletes, while ranging over the map, every key
  that the buffer contains; each key is tested alone against the buffer, so the result
  does not depend on the order of the range.
\<close>

fun scanFiles :: "sys \<Rightarrow> string list \<Rightarrow> locales \<Rightarrow> error + locales" where
  "scanFiles s [] loc = Inr loc"
| "scanFiles s (fn # fns) loc =
     (case readFile s fn of
        Inl err \<Rightarrow> Inl err
      | Inr buf \<Rightarrow> scanFiles s fns (fmfilter (\<lambda>k. \<not> bytes_Contains buf k) loc))"

text \<open>\<open>printUnused\<close>: the keys, sorted, one \<open>fmt.Println\<close> each.\<close>

definition printUnused :: "locales \<Rightarrow> event list" where
  "printUnused loc = map (\<lambda>v. Stdout (v @ nl)) (sorted_list_of_fset (fmdom loc))"

text \<open>
  \<open>removeUnused\<close>: the labels of the fixed list \<open>knownUsed\<close> are deleted, the files
  are scanned, and what is left is printed.  On a read error nothing is printed.
\<close>

definition removeUnused :: "sys \<Rightarrow> string list \<Rightarrow> locales \<Rightarrow> event list \<times> error option" where
  "removeUnused s fileNames loc =
     (case scanFiles s fileNames (fold fmdrop knownUsed loc) of
        Inl err \<Rightarrow> ([], Some err)
      | Inr loc' \<Rightarrow> (printUnused loc', None))"

text \<open>
  The callback that \<open>unused\<close> hands to \<open>filepath.Walk\<close>, on the state it closes over: the
  file names collected so far and the log.  It returns nil on every path, so the walk
  visits every entry and returns nil itself.
\<close>

fun walkFn :: "string \<Rightarrow> walkEntry \<Rightarrow> string list \<times> event list \<Rightarrow> string list \<times> event list" where
  "walkFn locDir (name, Inl err) (fileNames, logs) = (fileNames, logs @ [LogInfo name err])"
| "walkFn locDir (name, Inr isDir) (fileNames, logs) =
     (if isDir then (fileNames, logs)
      else if HasPrefix name locDir then (fileNames, logs)
      else
        (let ext = filepath_Ext name
         in if ext = ''.js'' \<or> ext = ''.json'' then (fileNames @ [name], logs)
            else (fileNames, logs)))"

definition unused :: "sys \<Rightarrow> event list \<times> error option" where
  "unused s =
     (let basePath = filepath_Join [localesDir, defaultBaseFile]
      in case readLocales s basePath of
           Inl err \<Rightarrow> ([], Some (Wrap ''unused'' err))
         | Inr baseLoc \<Rightarrow>
             (let locDir = filepath_Clean localesDir;
                  (fileNames, logs) = fold (walkFn locDir) (walkDir s srcDir) ([], []);
                  (out, err) = removeUnused s fileNames baseLoc
              in (logs @ out, map_option (Wrap ''removing unused'') err)))"

subsection \<open>Query strings (net/url)\<close>

text \<open>
  \<open>shouldEscape\<close> in the mode of a query component: letters, digits and the four marks
  \<open>- _ . ~\<close> stay, every other byte is escaped.
\<close>

definition shouldEscape :: "char \<Rightarrow> bool" where
  "shouldEscape c =
     (let n = (of_char c :: nat)
      in \<not> ((97 \<le> n \<and> n \<le> 122) \<or> (65 \<le> n \<and> n \<le> 90) \<or> (48 \<le> n \<and> n \<le> 57)
             \<or> c = CHR ''-'' \<or> c = CHR ''_'' \<or> c = CHR ''.'' \<or> c = CHR ''~''))"

definition upperhex :: "nat \<Rightarrow> char" where
  "upperhex n = ''0123456789ABCDEF'' ! n"

definition escapeByte :: "char \<Rightarrow> string" where
  "escapeByte c =
     (if shouldEscape c then
        (if c = CHR '' '' then ''+''
         else [CHR ''%'', upperhex ((of_char c :: nat) div 16), upperhex ((of_char c :: nat) mod 16)])
      else [c])"

definition QueryEscape :: "string \<Rightarrow> string" where
  "QueryEscape str = concat (map escapeByte str)"

definition ishex :: "char \<Rightarrow> bool" where
  "ishex c =
     (let n = (of_char c :: nat)
      in (48 \<le> n \<and> n \<le> 57) \<or> (97 \<le> n \<and> n \<le> 102) \<or> (65 \<le> n \<and> n \<le> 70))"

definition unhex :: "char \<Rightarrow> nat" where
  "unhex c =
     (let n = (of_char c :: nat)
      in if 48 \<le> n \<and> n \<le> 57 then n - 48
         else if 97 \<le> n \<and> n \<le> 102 then n - 97 + 10
         else if 65 \<le> n \<and> n \<le> 70 then n - 65 + 10
         else 0)"

text \<open>
  \<open>QueryUnescape\<close>: a percent sign must be followed by two hex digits, or the whole string
  is refused (\<open>None\<close>); a plus sign is a space.
\<close>

fun QueryUnescape :: "string \<Rightarrow> string option" where
  "QueryUnescape [] = Some []"
| "QueryUnescape [c] = (if c = CHR ''%'' then None else if c = CHR ''+'' then Some '' '' else Some [c])"
| "QueryUnescape [c, d] =
     (if c = CHR ''%'' then None
      else map_option ((#) (if c = CHR ''+'' then CHR '' '' else c)) (QueryUnescape [d]))"
| "QueryUnescape (c # d # e # rest) =
     (if c = CHR ''%'' then
        (if ishex d \<and> ishex e then
           map_option ((#) (char_of (unhex d * 16 + unhex e))) (QueryUnescape rest)
         else None)
      else map_option ((#) (if c = CHR ''+'' then CHR '' '' else c)) (QueryUnescape (d # e # rest)))"

text \<open>\<open>strings.Cut\<close> at the first occurrence of a byte: what is before it and what is after it.\<close>

definition strings_Cut :: "char \<Rightarrow> string \<Rightarrow> string \<times> string" where
  "strings_Cut sep str = (takeWhile (\<lambda>c. c \<noteq> sep) str, drop 1 (dropWhile (\<lambda>c. c \<noteq> sep) str))"

definition vals :: "Values \<Rightarrow> string \<Rightarrow> string list" where
  "vals m key = (case fmlookup m key of None \<Rightarrow> [] | Some vs \<Rightarrow> vs)"

text \<open>
  One round of the loop of \<open>parseQuery\<close>, on the text between two ampersands: a pair with
  a semicolon, an empty pair, and a pair whose key or value does not unescape are skipped.
\<close>

definition parsePair :: "Values \<Rightarrow> string \<Rightarrow> Values" where
  "parsePair m pair =
     (if CHR '';'' \<in> set pair then m
      else if pair = [] then m
      else
        (case QueryUnescape (fst (strings_Cut CHR ''='' pair)) of
           None \<Rightarrow> m
         | Some key \<Rightarrow>
             (case QueryUnescape (snd (strings_Cut CHR ''='' pair)) of
                None \<Rightarrow> m
              | Some v \<Rightarrow> fmupd key (vals m key @ [v]) m)))"

lemma length_strings_Cut_snd: "length (snd (strings_Cut sep (c # cs))) \<le> length cs"
  using length_dropWhile_le [of "\<lambda>c. c \<noteq> sep" cs] by (auto simp: strings_Cut_def)

function parseQuery :: "Values \<Rightarrow> string \<Rightarrow> Values" where
  "parseQuery m [] = m"
| "parseQuery m (c # cs) =
     parseQuery (parsePair m (fst (strings_Cut CHR ''&'' (c # cs))))
       (snd (strings_Cut CHR ''&'' (c # cs)))"
  by pat_completeness auto
termination
  by (relation "measure (\<lambda>(m, q). length q)") (simp_all add: length_strings_Cut_snd less_Suc_eq_le)

text \<open>\<open>(*URL).Query\<close> parses \<open>RawQuery\<close> and drops the parse error.\<close>

definition Query :: "URL \<Rightarrow> Values" where
  "Query u = parseQuery fmempty (RawQuery u)"

definition Values_Set :: "Values \<Rightarrow> string \<Rightarrow> string \<Rightarrow> Values" where
  "Values_Set v key val = fmupd key [val] v"

definition Values_Get :: "Values \<Rightarrow> string \<Rightarrow> string" where
  "Values_Get v key = (case vals v key of [] \<Rightarrow> [] | x # _ \<Rightarrow> x)"

text \<open>
  \<open>Values.Encode\<close>: the keys sorted, and for each key its values in order, each pair
  written as escaped key, equals sign, escaped value, with an ampersand before it when
  the buffer is not empty.
\<close>

definition writePair :: "string \<Rightarrow> string \<Rightarrow> string \<Rightarrow> string" where
  "writePair keyEscaped v buf =
     (if buf \<noteq> [] then buf @ ''&'' else buf) @ keyEscaped @ ''='' @ QueryEscape v"

text \<open>
  \<open>keys\<close> is the list of the map's keys as the range yields them; it is sorted before
  it is used, so the order of the range does not show in the result.
\<close>

definition encodeKeys :: "string list \<Rightarrow> Values \<Rightarrow> string" where
  "encodeKeys keys v =
     (if fmdom v = {||} then []
      else fold (\<lambda>k. fold (writePair (QueryEscape k)) (vals v k)) (sort keys) [])"

definition Encode :: "Values \<Rightarrow> string" where
  "Encode v = encodeKeys (sorted_list_of_fset (fmdom v)) v"

subsection \<open>translationURL\<close>

definition zeroURL :: URL where
  "zeroURL = \<lparr>Scheme = [], Opaque = [], User = None, Host = [], Path = [], RawPath = [],
     OmitHost = False, ForceQuery = False, RawQuery = [], Fragment = [], RawFragment = []\<rparr>"

text \<open>
  \<open>translationURL\<close> allocates a URL, copies \<open>*oldURL\<close> into it, and sets the raw query
  of the copy.  Dereferencing a pointer outside the store panics.
\<close>

definition translationURL ::
  "heap \<Rightarrow> addr \<Rightarrow> string \<Rightarrow> string \<Rightarrow> langCode \<Rightarrow> error + (addr \<times> heap)" where
  "translationURL h oldURL baseFile projectID lang =
     (let uri = length h;
          h1 = h @ [zeroURL]
      in if oldURL < length h then
           (let h2 = h1[uri := h1 ! oldURL];
                q = Query (h2 ! uri);
                q = Values_Set q ''format'' ''json'';
                q = Values_Set q ''filename'' baseFile;
                q = Values_Set q ''project'' projectID;
                q = Values_Set q ''language'' lang
            in Inr (uri, h2[uri := (h2 ! uri)\<lparr>RawQuery := Encode q\<rparr>]))
         else Inl ErrNilDeref)"

subsection \<open>getTranslation\<close>

text \<open>A limited reader: the reader and the greatest number of bytes that may be read from it.\<close>

type_synonym limitedReader = "reader \<times> nat"

text \<open>
  Modelled from the spec: \<open>aghio.LimitReader\<close> (internal/aghio, whose source is not
  among the files) caps what is read from the body at a fixed size.
\<close>

definition aghio_LimitReader :: "reader \<Rightarrow> nat \<Rightarrow> error + limitedReader" where
  "aghio_LimitReader r n = Inr (r, n)"

text \<open>
  Modelled from the spec: reading beyond the limit of a limited reader fails with a
  size-limit error rather than truncating, so \<open>io.ReadAll\<close> on it fails when the
  content is longer than the limit; otherwise it returns the whole content, or the error
  that ends it.
\<close>

definition io_ReadAll :: "limitedReader \<Rightarrow> error + string" where
  "io_ReadAll lr =
     (case lr of
        (r, n) \<Rightarrow>
          (if n < length (content r) then Inl (ErrLimitReached n)
           else (case failure r of Some err \<Rightarrow> Inl err | None \<Rightarrow> Inr (content r))))"

text \<open>
  \<open>getTranslation\<close>: the request, the check of the status, and the read of the body
  through a limited reader.  The client's timeout shows as a failed request; the deferred
  close of the body only logs.
\<close>

definition getTranslation :: "sys \<Rightarrow> string \<Rightarrow> error + string" where
  "getTranslation s url =
     (case httpGet s url of
        Inl err \<Rightarrow> Inl (Wrap ''requesting'' err)
      | Inr resp \<Rightarrow>
          if StatusCode resp \<noteq> 200 then Inl (ErrStatus url (StatusCode resp))
          else
            (case aghio_LimitReader (Body resp) readLimit of
               Inl err \<Rightarrow> Inl (Wrap ''limit reading'' err)
             | Inr limitReader \<Rightarrow>
                 (case io_ReadAll limitReader of
                    Inl err \<Rightarrow> Inl (Wrap ''reading all'' err)
                  | Inr data \<Rightarrow> Inr data)))"

subsection \<open>The download command\<close>

text \<open>
  The loop that builds one task URL for each language and sends it on the channel, over
  the keys in the order the range yields them: the pointers sent, and the store after.
\<close>

fun taskURLs :: "heap \<Rightarrow> addr \<Rightarrow> string \<Rightarrow> langCode list \<Rightarrow> error + (addr list \<times> heap)" where
  "taskURLs h downloadURI projectID [] = Inr ([], h)"
| "taskURLs h downloadURI projectID (lang # langs) =
     (case translationURL h downloadURI defaultBaseFile projectID lang of
        Inl err \<Rightarrow> Inl err
      | Inr (uri, h') \<Rightarrow>
          (case taskURLs h' downloadURI projectID langs of
             Inl err \<Rightarrow> Inl err
           | Inr (uris, h'') \<Rightarrow> Inr (uri # uris, h'')))"

text \<open>
  \<open>downloadWorker\<close> on the URLs it receives.  The pool of \<open>numWorker\<close> goroutines is
  modelled by one worker that drains the channel: each task's events are as the source
  produces them, and the order in which several workers would interleave them is not
  modelled.
\<close>

fun downloadWorker :: "sys \<Rightarrow> heap \<Rightarrow> addr list \<Rightarrow> event list" where
  "downloadWorker s h [] = []"
| "downloadWorker s h (uri # uriCh) =
     (let url = urlString s (h ! uri)
      in HttpGet url #
         (case getTranslation s url of
            Inl err \<Rightarrow> [LogError ''download worker: getting translation'' err]
          | Inr data \<Rightarrow>
              (let code = Values_Get (Query (h ! uri)) ''language'';
                   name = filepath_Join [localesDir, code @ ''.json'']
               in FileWrite name data #
                  (case writeFile s name data of
                     Some err \<Rightarrow> [LogError ''download worker: writing file'' err]
                   | None \<Rightarrow> [Stdout (name @ nl)]))))
     @ downloadWorker s h uriCh"

definition download :: "sys \<Rightarrow> heap \<Rightarrow> addr \<Rightarrow> string \<Rightarrow> languages \<Rightarrow> event list \<times> ending" where
  "download s h uri projectID langs =
     (case flagParse s (drop 2 (osArgs s)) of
        None \<Rightarrow> usage ''download command error''
      | Some numWorker \<Rightarrow>
          if numWorker < 1 then usage ''count must be positive''
          else if length h \<le> uri then ([], Panicked ErrNilDeref)
          else
            (let downloadURI = length h;
                 h1 = h @ [joinPath s (h ! uri) ''download'']
             in case taskURLs h1 downloadURI projectID (rangeOrder s langs) of
                  Inl err \<Rightarrow> ([], Panicked err)
                | Inr (uriCh, h2) \<Rightarrow> (downloadWorker s h2 uriCh, Returned None)))"

subsection \<open>The upload command\<close>

text \<open>
  \<open>upload\<close> posts the base file to the upload endpoint, for the language of the
  environment variable when it is set and for the base language otherwise.  Closing the
  response body is taken to succeed.
\<close>

definition upload :: "sys \<Rightarrow> heap \<Rightarrow> addr \<Rightarrow> string \<Rightarrow> langCode \<Rightarrow> event list \<times> ending" where
  "upload s h uri projectID baseLang =
     (if length h \<le> uri then ([], Panicked ErrNilDeref)
      else
        (let uploadURI = length h;
             h1 = h @ [joinPath s (h ! uri) ''upload''];
             langStr = getenv s ''UPLOAD_LANGUAGE'';
             lang = (if langStr \<noteq> [] then langStr else baseLang);
             basePath = filepath_Join [localesDir, defaultBaseFile]
         in case readFile s basePath of
              Inl err \<Rightarrow> ([], Returned (Some (Wrap ''upload'' err)))
            | Inr b \<Rightarrow>
                (case translationURL h1 uploadURI defaultBaseFile projectID lang of
                   Inl err \<Rightarrow> ([], Panicked err)
                 | Inr (uri', h2) \<Rightarrow>
                     (let url = urlString s (h2 ! uri')
                      in case httpPost s url ''application/json'' b of
                           Inl err \<Rightarrow>
                             ([HttpPost url b], Returned (Some (Wrap ''upload: client post'' err)))
                         | Inr resp \<Rightarrow>
                             if StatusCode resp \<noteq> 200
                             then ([HttpPost url b], Returned (Some (ErrStatusNotOK (StatusCode resp))))
                             else ([HttpPost url b], Returned None)))))"

subsection \<open>The float64 arithmetic and formatting of summary\<close>

text \<open>
  The values of type \<open>float64\<close> that \<open>summary\<close> can compute are not negative: a finite
  binary64 number, held as the rational it denotes, positive infinity, or not-a-number.
\<close>

datatype float64 = Finite rat | PosInf | NaN

text \<open>The integer \<open>e\<close> with \<open>2^e \<le> x < 2^(e+1)\<close>, for a positive rational \<open>x\<close>.\<close>

definition floorLog2 :: "rat \<Rightarrow> int" where
  "floorLog2 x =
     (let (a, b) = quotient_of x;
          d = bitlen a - bitlen b
      in if 2 powi d \<le> x then d else d - 1)"

text \<open>Rounding to the nearest integer, a tie going to the even one.\<close>

definition roundEven :: "rat \<Rightarrow> int" where
  "roundEven x =
     (let f = \<lfloor>x\<rfloor>;
          r = x - of_int f
      in if r < 1 / 2 then f
         else if 1 / 2 < r then f + 1
         else if even f then f
         else f + 1)"

text \<open>
  IEEE 754 rounding of a rational that is not negative to binary64, to nearest with ties
  to even: 53 significant bits, the least exponent that of the subnormal numbers, and
  infinity from \<open>2^1024\<close> on.
\<close>

definition round64 :: "rat \<Rightarrow> float64" where
  "round64 x =
     (if x \<le> 0 then Finite 0
      else
        (let e = max (floorLog2 x - 52) (- 1074);
             v = of_int (roundEven (x / 2 powi e)) * 2 powi e
         in if 2 powi 1024 \<le> v then PosInf else Finite v))"

text \<open>The conversion \<open>float64(n)\<close> of a length.\<close>

definition float64_of_nat :: "nat \<Rightarrow> float64" where
  "float64_of_nat n = round64 (of_nat n)"

fun float64_mul :: "float64 \<Rightarrow> float64 \<Rightarrow> float64" where
  "float64_mul (Finite a) (Finite b) = round64 (a * b)"
| "float64_mul (Finite a) PosInf = (if a = 0 then NaN else PosInf)"
| "float64_mul PosInf (Finite b) = (if b = 0 then NaN else PosInf)"
| "float64_mul PosInf PosInf = PosInf"
| "float64_mul NaN _ = NaN"
| "float64_mul _ NaN = NaN"

fun float64_div :: "float64 \<Rightarrow> float64 \<Rightarrow> float64" where
  "float64_div (Finite a) (Finite b) =
     (if b = 0 then (if a = 0 then NaN else PosInf) else round64 (a / b))"
| "float64_div (Finite a) PosInf = Finite 0"
| "float64_div PosInf (Finite b) = PosInf"
| "float64_div PosInf PosInf = NaN"
| "float64_div NaN _ = NaN"
| "float64_div _ NaN = NaN"

definition digitChar :: "nat \<Rightarrow> char" where
  "digitChar d = ''0123456789'' ! d"

function decimal :: "nat \<Rightarrow> string" where
  "decimal n = (if n < 10 then [digitChar n] else decimal (n div 10) @ [digitChar (n mod 10)])"
  by pat_completeness auto
termination
  by (relation "measure id") auto

declare decimal.simps [simp del]

text \<open>
  The verb \<open>%6.2f\<close>: the exact value rounded to two decimals, a tie going to the even
  digit, then padded with spaces on the left to six bytes.  \<open>twoDecimals c\<close> writes
  \<open>c\<close> hundredths.
\<close>

definition twoDecimals :: "nat \<Rightarrow> string" where
  "twoDecimals c = decimal (c div 100) @ ''.'' @ [digitChar (c mod 100 div 10), digitChar (c mod 10)]"

fun formatFixed2 :: "float64 \<Rightarrow> string" where
  "formatFixed2 (Finite v) = twoDecimals (nat (roundEven (v * 100)))"
| "formatFixed2 PosInf = ''+Inf''"
| "formatFixed2 NaN = ''NaN''"

definition padLeft :: "nat \<Rightarrow> string \<Rightarrow> string" where
  "padLeft width str = replicate (width - length str) CHR '' '' @ str"

subsection \<open>The summary command\<close>

text \<open>The line \<open>fmt.Printf("%s\t %6.2f %%\n", lang, f)\<close>.\<close>

definition summaryLine :: "langCode \<Rightarrow> float64 \<Rightarrow> string" where
  "summaryLine lang f = lang @ [CHR 0x09] @ '' '' @ padLeft 6 (formatFixed2 f) @ '' %'' @ nl"

text \<open>The length of a Go map.\<close>

definition len :: "('k, 'v) fmap \<Rightarrow> nat" where
  "len m = fcard (fmdom m)"

fun summaryLoop :: "sys \<Rightarrow> string \<Rightarrow> float64 \<Rightarrow> langCode list \<Rightarrow> event list \<times> error option" where
  "summaryLoop s basePath sz [] = ([], None)"
| "summaryLoop s basePath sz (lang # keys) =
     (let name = filepath_Join [localesDir, lang @ ''.json'']
      in if name = basePath then summaryLoop s basePath sz keys
         else
           (case readLocales s name of
              Inl err \<Rightarrow> ([], Some (Wrap ''summary: reading locales'' err))
            | Inr loc \<Rightarrow>
                (let f = float64_div (float64_mul (float64_of_nat (len loc)) (Finite 100)) sz;
                     (out, err) = summaryLoop s basePath sz keys
                 in (Stdout (summaryLine lang f) # out, err))))"

definition summary :: "sys \<Rightarrow> languages \<Rightarrow> event list \<times> error option" where
  "summary s langs =
     (let basePath = filepath_Join [localesDir, defaultBaseFile]
      in case readLocales s basePath of
           Inl err \<Rightarrow> ([], Some (Wrap ''summary'' err))
         | Inr baseLoc \<Rightarrow>
             summaryLoop s basePath (float64_of_nat (len baseLoc))
               (sorted_list_of_fset (fmdom langs)))"

subsection \<open>main\<close>

text \<open>\<open>check\<close> panics on an error.\<close>

fun check :: "event list \<times> ending \<Rightarrow> event list \<times> ending" where
  "check (ev, Returned (Some err)) = (ev, Panicked err)"
| "check (ev, e) = (ev, e)"

definition returned :: "event list \<times> error option \<Rightarrow> event list \<times> ending" where
  "returned r = (fst r, Returned (snd r))"

text \<open>The switch of \<open>main\<close> over the command.\<close>

definition runCommand ::
  "sys \<Rightarrow> string \<Rightarrow> heap \<Rightarrow> addr \<Rightarrow> string \<Rightarrow> twoskyConf \<Rightarrow> event list \<times> ending" where
  "runCommand s cmd h uri projectID conf =
     (if cmd = ''summary'' then check (returned (summary s (Languages conf)))
      else if cmd = ''download'' then check (download s h uri projectID (Languages conf))
      else if cmd = ''unused'' then check (returned (unused s))
      else if cmd = ''upload'' then check (upload s h uri projectID (BaseLangcode conf))
      else usage ''unknown command'')"

definition main :: "sys \<Rightarrow> event list \<times> ending" where
  "main s =
     (case osArgs s of
        [] \<Rightarrow> ([], Panicked ErrIndexOutOfRange)
      | [prog] \<Rightarrow> usage ''need a command''
      | prog # cmd # args \<Rightarrow>
          if cmd = ''help'' then usage []
          else
            (let uriStr = (if getenv s ''TWOSKY_URI'' = [] then twoskyURI
                           else getenv s ''TWOSKY_URI'')
             in case urlParse s uriStr of
                  Inl err \<Rightarrow> ([], Panicked err)
                | Inr u \<Rightarrow>
                    (let h = [u];
                         uri = 0;
                         projectID = (if getenv s ''TWOSKY_PROJECT_ID'' = [] then defaultProjectID
                                      else getenv s ''TWOSKY_PROJECT_ID'')
                     in case readTwoskyConf s of
                          Inl err \<Rightarrow> ([], Panicked err)
                        | Inr conf \<Rightarrow> runCommand s cmd h uri projectID conf)))"

subsection \<open>Notions used in the proofs about query strings\<close>

text \<open>What Encode writes for one key and one of its values.\<close>

definition piece :: "string \<times> string \<Rightarrow> string" where
  "piece kv = QueryEscape (fst kv) @ ''='' @ QueryEscape (snd kv)"

text \<open>What parseQuery does with one well-formed pair: the value is appended to the key's list.\<close>

definition addPair :: "string \<times> string \<Rightarrow> Values \<Rightarrow> Values" where
  "addPair kv m = fmupd (fst kv) (vals m (fst kv) @ [snd kv]) m"

text \<open>The four assignments of translationURL to the query values.\<close>

definition managed :: "Values \<Rightarrow> string \<Rightarrow> string \<Rightarrow> langCode \<Rightarrow> Values" where
  "managed q baseFile projectID lang =
     Values_Set (Values_Set (Values_Set (Values_Set q ''format'' ''json'') ''filename'' baseFile)
       ''project'' projectID) ''language'' lang"

section \<open>A concrete world\<close>

text \<open>
  A small world on which the definitions are run: three languages, a base locale file
  with three labels, a French file with one, and a translation service that knows French.
\<close>

definition exLocales :: locales where
  "exLocales = fmap_of_list [(''a'', ''x''), (''b'', ''y''), (''c'', ''z'')]"

text \<open>A base locale map one of whose labels is in the fixed allow-list.\<close>

definition exLocalesKnown :: locales where
  "exLocalesKnown =
     fmap_of_list [(''a'', ''x''), (''blocking_mode_refused'', ''y''), (''c'', ''z'')]"

definition exLanguages :: languages where
  "exLanguages = fmap_of_list [(''fr'', ''French''), (''en'', ''English''), (''de'', ''German'')]"

definition exConf :: twoskyConf where
  "exConf = \<lparr>Languages = exLanguages, ProjectID = ''home'', BaseLangcode = ''en'',
     LocalizableFiles = [''client/src/__locales/en.json'']\<rparr>"

definition exURL :: URL where
  "exURL = zeroURL\<lparr>Scheme := ''https'', Host := ''twosky.int.agrd.dev'', Path := ''/api/v1''\<rparr>"

definition exBody :: reader where
  "exBody = \<lparr>content = ''{}'', failure = None\<rparr>"

definition exSys :: sys where
  "exSys = \<lparr>
     osArgs = [''translations'', ''unused''],
     getenv = (\<lambda>name. []),
     readFile = (\<lambda>fn.
        if fn = ''./.twosky.json'' then Inr ''conf''
        else if fn = ''client/src/__locales/en.json'' then Inr ''base''
        else if fn = ''client/src/__locales/fr.json'' then Inr ''french''
        else if fn = ''client/src/__locales/de.json'' then Inr ''base''
        else if fn = ''client/src/app.js'' then Inr ''t(a)''
        else Inl (ErrOS fn)),
     writeFile = (\<lambda>name data. None),
     walkDir = (\<lambda>root.
        [(''client/src'', Inr True),
         (''client/src/__locales'', Inr True),
         (''client/src/__locales/en.json'', Inr False),
         (''client/src/private'', Inl (ErrOS ''client/src/private'')),
         (''client/src/app.js'', Inr False),
         (''client/src/logo.svg'', Inr False)]),
     jsonConf = (\<lambda>b. if b = ''conf'' then Inr [exConf] else Inl ErrJSON),
     jsonLocales = (\<lambda>b.
        if b = ''base'' then Inr exLocales
        else if b = ''french'' then Inr (fmap_of_list [(''a'', ''u'')])
        else Inl ErrJSON),
     urlParse = (\<lambda>str. if str = twoskyURI then Inr exURL else Inl ErrURL),
     joinPath = (\<lambda>u elem. u\<lparr>Path := Path u @ ''/'' @ elem\<rparr>),
     urlString = (\<lambda>u. Scheme u @ ''://'' @ Host u @ Path u @ ''?'' @ RawQuery u),
     flagParse = (\<lambda>args.
        if args = [] then Some 1
        else if args = [''-n'', ''0''] then Some 0
        else if args = [''-n'', ''-1''] then Some (- 1)
        else None),
     rangeOrder = (\<lambda>langs. sorted_list_of_fset (fmdom langs)),
     httpGet = (\<lambda>url.
        if url = ''https://twosky.int.agrd.dev/api/v1/download?filename=en.json&format=json&language=fr&project=home''
        then Inr \<lparr>StatusCode = 200, Body = exBody\<rparr>
        else Inr \<lparr>StatusCode = 404, Body = exBody\<rparr>),
     httpPost = (\<lambda>url contentType body. Inl ErrTransport)
   \<rparr>"

text \<open>The same world with a source file that cannot be read.\<close>

definition exSysBad :: sys where
  "exSysBad = exSys\<lparr>walkDir := (\<lambda>root.
        [(''client/src'', Inr True),
         (''client/src/bad.js'', Inr False),
         (''client/src/app.js'', Inr False)])\<rparr>"

text \<open>A service that answers every request with a body one byte over the limit.\<close>

definition exSysBig :: sys where
  "exSysBig = exSys\<lparr>httpGet := (\<lambda>url.
      Inr \<lparr>StatusCode = 200, Body = \<lparr>content = replicate 1048577 CHR ''x'', failure = None\<rparr>\<rparr>)\<rparr>"

text \<open>A configuration whose language list is empty, and the summary command.\<close>

definition exSysNoLanguages :: sys where
  "exSysNoLanguages = exSys\<lparr>osArgs := [''translations'', ''summary''],
      jsonConf := (\<lambda>b. Inr [exConf\<lparr>Languages := fmempty\<rparr>])\<rparr>"

text \<open>A store with one download endpoint that carries a query, and the task URL for French.\<close>

definition exHeap :: heap where
  "exHeap = [exURL\<lparr>Path := ''/api/v1/download'', RawQuery := ''z=1&format=xml&language=a&language=b&t=x%20y''\<rparr>]"

definition exTask :: URL where
  "exTask = exURL\<lparr>Path := ''/api/v1/download'',
     RawQuery := ''filename=en.json&format=json&language=fr&project=home&t=x+y&z=1''\<rparr>"

text \<open>A configuration whose only language, and base language, is written \<open>./en\<close>.\<close>

definition exSysDotEn :: sys where
  "exSysDotEn = exSys\<lparr>osArgs := [''translations'', ''summary''],
      jsonConf := (\<lambda>b. Inr [exConf\<lparr>Languages := fmap_of_list [(''./en'', ''English'')],
                                     BaseLangcode := ''./en''\<rparr>])\<rparr>"

text \<open>A language set whose first language has no locale file.\<close>

definition exLanguagesMissing :: languages where
  "exLanguagesMissing = fmap_of_list [(''aa'', ''Afar''), (''fr'', ''French'')]"




section \<open>The unused-label scanner\<close>

lemma fmdom_fold_fmdrop:
  "k |\<in>| fmdom (fold fmdrop ks m) \<longleftrightarrow> k |\<in>| fmdom m \<and> k \<notin> set ks"
  by (induction ks arbitrary: m) auto

lemma scanFiles_all_read:
  "\<forall>fn \<in> set fns. \<exists>buf. readFile s fn = Inr buf \<Longrightarrow>
   scanFiles s fns loc =
     Inr (fmfilter (\<lambda>k. \<not> (\<exists>fn \<in> set fns. \<exists>buf. readFile s fn = Inr buf \<and> sublist k buf)) loc)"
proof (induction fns arbitrary: loc)
  case Nil
  then show ?case by simp
next
  case (Cons fn fns)
  then obtain buf where b: "readFile s fn = Inr buf"
    by auto
  from Cons have "scanFiles s fns (fmfilter (\<lambda>k. \<not> bytes_Contains buf k) loc)
      = Inr (fmfilter (\<lambda>k. \<not> (\<exists>fn \<in> set fns. \<exists>buf. readFile s fn = Inr buf \<and> sublist k buf))
               (fmfilter (\<lambda>k. \<not> bytes_Contains buf k) loc))"
    by simp
  with b show ?case
    by (simp add: bytes_Contains_def conj_commute)
qed

lemma scanFiles_first_failure:
  "\<forall>fn \<in> set pre. \<exists>buf. readFile s fn = Inr buf \<Longrightarrow> readFile s fn = Inl err \<Longrightarrow>
   scanFiles s (pre @ fn # post) loc = Inl err"
  by (induction pre arbitrary: loc) auto

lemma walkFn_error:
  "walkFn d (name, Inl err) st = (case st of (fns, logs) \<Rightarrow> (fns, logs @ [LogInfo name err]))"
  by (cases st) simp

lemma scanFiles_find:
  "scanFiles s fns loc =
     (case find (\<lambda>fn. isl (readFile s fn)) fns of
        None \<Rightarrow>
          Inr (fmfilter (\<lambda>k. \<not> (\<exists>fn \<in> set fns. \<exists>buf. readFile s fn = Inr buf \<and> sublist k buf))
                 loc)
      | Some fn \<Rightarrow> Inl (projl (readFile s fn)))"
proof (cases "\<forall>fn \<in> set fns. \<exists>buf. readFile s fn = Inr buf")
  case True
  then have "find (\<lambda>fn. isl (readFile s fn)) fns = None"
    by (auto simp: find_None_iff)
  with scanFiles_all_read [OF True] show ?thesis
    by simp
next
  case False
  then have "\<exists>fn \<in> set fns. isl (readFile s fn)"
    by (metis sum.collapse(2))
  from split_list_first_prop [OF this] obtain pre fn post where
    f: "fns = pre @ fn # post" "isl (readFile s fn)" "\<forall>y \<in> set pre. \<not> isl (readFile s y)"
    by blast
  from f(3) have r: "\<forall>y \<in> set pre. \<exists>buf. readFile s y = Inr buf"
    by (metis sum.collapse(2))
  from f(2) have e: "readFile s fn = Inl (projl (readFile s fn))"
    by simp
  have "find (\<lambda>fn. isl (readFile s fn)) fns = Some fn"
    using f by (auto simp: find_Some_iff nth_append intro!: exI [of _ "length pre"])
  with scanFiles_first_failure [OF r e] show ?thesis
    unfolding f(1) by simp
qed

text \<open>
  C1, as the code has it.  The allow-list is the fixed list of three labels in
  \<open>removeUnused\<close>, not an input.  When every scanned file can be read, the scanner
  prints exactly the keys of the base locale map that are not among these three labels
  and occur in no scanned file as a contiguous run of bytes, in increasing lexicographic
  order, one per line, and returns no error.  When a file cannot be read, nothing is
  printed and the error of the first such file is returned.
\<close>

theorem removeUnused_prints_unused:
  "removeUnused s fileNames loc =
     (case find (\<lambda>fn. isl (readFile s fn)) fileNames of
        None \<Rightarrow>
          (map (\<lambda>v. Stdout (v @ nl))
             (sorted_list_of_set
                {k. k |\<in>| fmdom loc \<and> k \<notin> set knownUsed \<and>
                    \<not> (\<exists>fn \<in> set fileNames. \<exists>buf. readFile s fn = Inr buf \<and> sublist k buf)}),
           None)
      | Some fn \<Rightarrow> ([], Some (projl (readFile s fn))))
   \<and> set knownUsed
       = {''blocking_mode_refused'', ''blocking_mode_nxdomain'', ''blocking_mode_custom_ip''}"
proof -
  let ?used = "\<lambda>k. \<exists>fn \<in> set fileNames. \<exists>buf. readFile s fn = Inr buf \<and> sublist k buf"
  have "fset (fmdom (fmfilter (\<lambda>k. \<not> ?used k) (fold fmdrop knownUsed loc)))
        = {k. k |\<in>| fmdom loc \<and> k \<notin> set knownUsed \<and> \<not> ?used k}"
    by (auto simp: fmdom_fold_fmdrop)
  then have "removeUnused s fileNames loc =
     (case find (\<lambda>fn. isl (readFile s fn)) fileNames of
        None \<Rightarrow>
          (map (\<lambda>v. Stdout (v @ nl))
             (sorted_list_of_set
                {k. k |\<in>| fmdom loc \<and> k \<notin> set knownUsed \<and> \<not> ?used k}),
           None)
      | Some fn \<Rightarrow> ([], Some (projl (readFile s fn))))"
    by (simp add: removeUnused_def scanFiles_find printUnused_def sorted_list_of_fset.rep_eq
        split: option.splits)
  moreover have "set knownUsed
       = {''blocking_mode_refused'', ''blocking_mode_nxdomain'', ''blocking_mode_custom_ip''}"
    by (simp add: knownUsed_def)
  ultimately show ?thesis
    by blast
qed

theorem removeUnused_prints_unused_witness:
  "readFile exSys ''client/src/app.js'' = Inr ''t(a)''
   \<and> removeUnused exSys [''client/src/app.js''] exLocalesKnown = ([Stdout (''c'' @ nl)], None)
   \<and> sorted_list_of_set
        {k. k |\<in>| fmdom exLocalesKnown \<and> k \<notin> set knownUsed \<and>
            \<not> (\<exists>fn \<in> set [''client/src/app.js''].
                  \<exists>buf. readFile exSys fn = Inr buf \<and> sublist k buf)} = [''c'']
   \<and> removeUnused exSys [''client/src/app.js'', ''client/src/gone.js''] exLocalesKnown
       = ([], Some (ErrOS ''client/src/gone.js''))"
proof -
  have r: "readFile exSys ''client/src/app.js'' = Inr ''t(a)''"
    by (simp add: exSys_def)
  have g: "readFile exSys ''client/src/gone.js'' = Inl (ErrOS ''client/src/gone.js'')"
    by (simp add: exSys_def)
  have n: "find (\<lambda>fn. isl (readFile exSys fn)) [''client/src/app.js''] = None"
    using r by simp
  have m: "find (\<lambda>fn. isl (readFile exSys fn)) [''client/src/app.js'', ''client/src/gone.js'']
      = Some ''client/src/gone.js''"
    using r g by simp
  have e: "removeUnused exSys [''client/src/app.js''] exLocalesKnown
             = ([Stdout (''c'' @ nl)], None)"
    by code_simp
  let ?L = "sorted_list_of_set
        {k. k |\<in>| fmdom exLocalesKnown \<and> k \<notin> set knownUsed \<and>
            \<not> (\<exists>fn \<in> set [''client/src/app.js''].
                  \<exists>buf. readFile exSys fn = Inr buf \<and> sublist k buf)}"
  from removeUnused_prints_unused [of exSys "[''client/src/app.js'']" exLocalesKnown] e
  have "map (\<lambda>v. Stdout (v @ nl)) ?L = [Stdout (''c'' @ nl)]"
    unfolding n by simp
  then have l: "?L = [''c'']"
    by (auto simp: map_eq_Cons_conv)
  from removeUnused_prints_unused
    [of exSys "[''client/src/app.js'', ''client/src/gone.js'']" exLocalesKnown]
  have f: "removeUnused exSys [''client/src/app.js'', ''client/src/gone.js''] exLocalesKnown
       = ([], Some (ErrOS ''client/src/gone.js''))"
    unfolding m using g by simp
  from r e l f show ?thesis
    by blast
qed

theorem removeUnused_allow_list_counterexample:
  "readFile exSys ''client/src/app.js'' = Inr ''t(a)''
   \<and> removeUnused exSys [''client/src/app.js''] exLocales
       = ([Stdout (''b'' @ nl), Stdout (''c'' @ nl)], None)
   \<and> removeUnused exSys [''client/src/app.js''] exLocales \<noteq> ([Stdout (''c'' @ nl)], None)
   \<and> removeUnused exSys [''client/src/app.js'', ''client/src/gone.js''] exLocales
       = ([], Some (ErrOS ''client/src/gone.js''))"
proof -
  have r: "readFile exSys ''client/src/app.js'' = Inr ''t(a)''"
    by (simp add: exSys_def)
  have a: "removeUnused exSys [''client/src/app.js''] exLocales
       = ([Stdout (''b'' @ nl), Stdout (''c'' @ nl)], None)"
    by code_simp
  have b: "removeUnused exSys [''client/src/app.js'', ''client/src/gone.js''] exLocales
       = ([], Some (ErrOS ''client/src/gone.js''))"
    by code_simp
  from r a b show ?thesis
    by simp
qed

text \<open>
  C3, as the code has it.  In the walk over the source tree, an error on a path is
  logged, the path is skipped, and the walk goes on with the paths that follow.  In the
  loop of \<open>removeUnused\<close> over the collected files, the first file that cannot be read
  ends the scan: its error is returned, nothing is logged and nothing is printed.
\<close>

theorem scan_errors:
  "fold (walkFn d) (es1 @ (name, Inl err) # es2) st =
     fold (walkFn d) es2
       (case fold (walkFn d) es1 st of (fns, logs) \<Rightarrow> (fns, logs @ [LogInfo name err]))
   \<and> ((\<forall>f \<in> set pre. \<exists>buf. readFile s f = Inr buf) \<and> readFile s fn = Inl e \<longrightarrow>
        removeUnused s (pre @ fn # post) loc = ([], Some e))"
  by (simp add: walkFn_error removeUnused_def scanFiles_first_failure)

theorem scan_errors_witness:
  "readFile exSysBad ''client/src/app.js'' = Inr ''t(a)''
   \<and> readFile exSysBad ''client/src/bad.js'' = Inl (ErrOS ''client/src/bad.js'')
   \<and> removeUnused exSysBad
        ([''client/src/app.js''] @ ''client/src/bad.js'' # [''client/src/other.js'']) exLocales
      = ([], Some (ErrOS ''client/src/bad.js''))
   \<and> fold (walkFn ''client/src/__locales'')
        ([(''client/src/app.js'', Inr False)]
           @ (''client/src/private'', Inl (ErrOS ''client/src/private''))
           # [(''client/src/b.json'', Inr False)]) ([], [])
      = ([''client/src/app.js'', ''client/src/b.json''],
         [LogInfo ''client/src/private'' (ErrOS ''client/src/private'')])"
proof -
  have r1: "readFile exSysBad ''client/src/app.js'' = Inr ''t(a)''"
    by (simp add: exSysBad_def exSys_def)
  have r2: "readFile exSysBad ''client/src/bad.js'' = Inl (ErrOS ''client/src/bad.js'')"
    by (simp add: exSysBad_def exSys_def)
  have h: "\<forall>f \<in> set [''client/src/app.js'']. \<exists>buf. readFile exSysBad f = Inr buf"
    using r1 by simp
  note t = scan_errors [of "''client/src/__locales''" "[(''client/src/app.js'', Inr False)]"
      "''client/src/private''" "ErrOS ''client/src/private''" "[(''client/src/b.json'', Inr False)]"
      "([], [])" "[''client/src/app.js'']" exSysBad "''client/src/bad.js''"
      "ErrOS ''client/src/bad.js''" "[''client/src/other.js'']" exLocales]
  have a: "removeUnused exSysBad
        ([''client/src/app.js''] @ ''client/src/bad.js'' # [''client/src/other.js'']) exLocales
      = ([], Some (ErrOS ''client/src/bad.js''))"
    using t h r2 by blast
  have w1: "fold (walkFn ''client/src/__locales'') [(''client/src/app.js'', Inr False)] ([], [])
      = ([''client/src/app.js''], [])"
    by code_simp
  have w2: "fold (walkFn ''client/src/__locales'') [(''client/src/b.json'', Inr False)]
       ([''client/src/app.js''], [LogInfo ''client/src/private'' (ErrOS ''client/src/private'')])
      = ([''client/src/app.js'', ''client/src/b.json''],
         [LogInfo ''client/src/private'' (ErrOS ''client/src/private'')])"
    by code_simp
  have b: "fold (walkFn ''client/src/__locales'')
        ([(''client/src/app.js'', Inr False)]
           @ (''client/src/private'', Inl (ErrOS ''client/src/private''))
           # [(''client/src/b.json'', Inr False)]) ([], [])
      = ([''client/src/app.js'', ''client/src/b.json''],
         [LogInfo ''client/src/private'' (ErrOS ''client/src/private'')])"
    using t w1 w2 by simp
  from r1 r2 a b show ?thesis by blast
qed

theorem scan_skips_unreadable_counterexample:
  "removeUnused exSysBad [''client/src/bad.js'', ''client/src/app.js''] exLocales
     = ([], Some (ErrOS ''client/src/bad.js''))
   \<and> removeUnused exSysBad [''client/src/app.js''] exLocales
     = ([Stdout (''b'' @ nl), Stdout (''c'' @ nl)], None)
   \<and> unused exSysBad = ([], Some (Wrap ''removing unused'' (ErrOS ''client/src/bad.js'')))"
proof -
  have a: "removeUnused exSysBad [''client/src/bad.js'', ''client/src/app.js''] exLocales
     = ([], Some (ErrOS ''client/src/bad.js''))"
    by code_simp
  have b: "removeUnused exSysBad [''client/src/app.js''] exLocales
     = ([Stdout (''b'' @ nl), Stdout (''c'' @ nl)], None)"
    by code_simp
  have c: "unused exSysBad = ([], Some (Wrap ''removing unused'' (ErrOS ''client/src/bad.js'')))"
    by code_simp
  from a b c show ?thesis by blast
qed

section \<open>The download command's worker count\<close>

text \<open>
  C7.  When the flag parser yields a worker count that is not positive, the download
  command prints the usage text under the line \<open>count must be positive\<close> and exits
  with code 1; no request has been made.
\<close>

theorem download_nonpositive_count:
  assumes "flagParse s (drop 2 (osArgs s)) = Some n" and "n \<le> 0"
  shows "download s h uri projectID langs
           = ([Stdout (''count must be positive'' @ nl @ usageStr @ nl)], Exited 1)
         \<and> (\<forall>url. HttpGet url \<notin> set (fst (download s h uri projectID langs)))
         \<and> snd (download s h uri projectID langs) = Exited 1"
  using assms by (simp add: download_def usage_def)

theorem download_nonpositive_count_witness:
  "flagParse (exSys\<lparr>osArgs := [''translations'', ''download'', ''-n'', ''0'']\<rparr>)
      (drop 2 [''translations'', ''download'', ''-n'', ''0'']) = Some 0
   \<and> download (exSys\<lparr>osArgs := [''translations'', ''download'', ''-n'', ''0'']\<rparr>) [exURL] 0 ''home'' exLanguages
       = ([Stdout (''count must be positive'' @ nl @ usageStr @ nl)], Exited 1)
   \<and> flagParse (exSys\<lparr>osArgs := [''translations'', ''download'', ''-n'', ''-1'']\<rparr>)
      (drop 2 [''translations'', ''download'', ''-n'', ''-1'']) = Some (- 1)
   \<and> download (exSys\<lparr>osArgs := [''translations'', ''download'', ''-n'', ''-1'']\<rparr>) [exURL] 0 ''home'' exLanguages
       = ([Stdout (''count must be positive'' @ nl @ usageStr @ nl)], Exited 1)
   \<and> snd (main (exSys\<lparr>osArgs := [''translations'', ''download'', ''-n'', ''0'']\<rparr>)) = Exited 1"
proof -
  let ?s0 = "exSys\<lparr>osArgs := [''translations'', ''download'', ''-n'', ''0'']\<rparr>"
  let ?s1 = "exSys\<lparr>osArgs := [''translations'', ''download'', ''-n'', ''-1'']\<rparr>"
  have f0: "flagParse ?s0 (drop 2 (osArgs ?s0)) = Some 0"
    by (simp add: exSys_def)
  have f1: "flagParse ?s1 (drop 2 (osArgs ?s1)) = Some (- 1)"
    by (simp add: exSys_def)
  have m: "snd (main ?s0) = Exited 1"
    by code_simp
  from download_nonpositive_count [OF f0, of "[exURL]" 0 "''home''" exLanguages]
       download_nonpositive_count [OF f1, of "[exURL]" 0 "''home''" exLanguages] f0 f1 m
  show ?thesis by simp
qed

section \<open>Fetching a translation\<close>

text \<open>
  C6.  \<open>getTranslation\<close> returns data exactly when the response has status 200 and a
  body that is read to its end within the limit of 1 MiB, and the data is then the whole
  body; a status other than 200 is an error that names the URL and the status, and a body
  longer than 1 MiB is a size-limit error, never a truncated result.
\<close>

theorem getTranslation_result:
  "(getTranslation s url = Inr data \<longleftrightarrow>
      (\<exists>resp. httpGet s url = Inr resp \<and> StatusCode resp = 200
         \<and> length (content (Body resp)) \<le> readLimit \<and> failure (Body resp) = None
         \<and> data = content (Body resp)))
   \<and> (httpGet s url = Inr resp \<and> StatusCode resp \<noteq> 200 \<longrightarrow>
        getTranslation s url = Inl (ErrStatus url (StatusCode resp)))
   \<and> (httpGet s url = Inr resp \<and> StatusCode resp = 200 \<and> readLimit < length (content (Body resp)) \<longrightarrow>
        getTranslation s url = Inl (Wrap ''reading all'' (ErrLimitReached readLimit)))
   \<and> readLimit = 1048576"
  by (auto simp: getTranslation_def aghio_LimitReader_def io_ReadAll_def readLimit_def
      split: sum.splits option.splits)

theorem getTranslation_result_witness:
  "getTranslation exSys ''https://twosky.int.agrd.dev/api/v1/download?filename=en.json&format=json&language=fr&project=home'' = Inr ''{}''
   \<and> getTranslation exSys ''https://twosky.int.agrd.dev/'' = Inl (ErrStatus ''https://twosky.int.agrd.dev/'' 404)
   \<and> getTranslation exSysBig ''https://twosky.int.agrd.dev/''
       = Inl (Wrap ''reading all'' (ErrLimitReached 1048576))"
proof -
  let ?fr = "''https://twosky.int.agrd.dev/api/v1/download?filename=en.json&format=json&language=fr&project=home''"
  let ?u = "''https://twosky.int.agrd.dev/''"
  let ?big = "\<lparr>StatusCode = 200, Body = \<lparr>content = replicate 1048577 CHR ''x'', failure = None\<rparr>\<rparr>"
  have g1: "httpGet exSys ?fr = Inr \<lparr>StatusCode = 200, Body = exBody\<rparr>"
    by (simp add: exSys_def)
  have g2: "httpGet exSys ?u = Inr \<lparr>StatusCode = 404, Body = exBody\<rparr>"
    by (simp add: exSys_def)
  have g3: "httpGet exSysBig ?u = Inr ?big"
    by (simp add: exSysBig_def)
  have a: "getTranslation exSys ?fr = Inr ''{}''"
    using getTranslation_result [of exSys ?fr "''{}''"] g1
    by (simp add: exBody_def readLimit_def)
  have b: "getTranslation exSys ?u = Inl (ErrStatus ?u 404)"
    using getTranslation_result [of exSys ?u _ "\<lparr>StatusCode = 404, Body = exBody\<rparr>"] g2
    by simp
  have c: "getTranslation exSysBig ?u = Inl (Wrap ''reading all'' (ErrLimitReached 1048576))"
    using getTranslation_result [of exSysBig ?u _ ?big] g3
    by (simp add: readLimit_def)
  from a b c show ?thesis by blast
qed

section \<open>Loading the configuration\<close>

text \<open>
  C4, as the code has it.  With the configuration file read: an empty array is an error;
  a first element one of whose languages has an empty display name is an error; otherwise
  the first element is returned, also when its language list is empty.  Whenever
  \<open>readTwoskyConf\<close> fails, \<open>main\<close> has printed the usage text and exited, or it panics:
  no command runs.
\<close>

theorem readTwoskyConf_errors:
  assumes "readFile s twoskyConfFile = Inr b"
  shows "(jsonConf s b = Inr [] \<longrightarrow> readTwoskyConf s = Inl (ErrConfEmpty twoskyConfFile))
     \<and> (jsonConf s b = Inr (conf # rest) \<longrightarrow>
          readTwoskyConf s =
            (if \<exists>lang. fmlookup (Languages conf) lang = Some [] then Inl ErrLanguageEmpty
             else Inr conf))
     \<and> (jsonConf s b = Inr (conf # rest) \<and> Languages conf = fmempty \<longrightarrow>
          readTwoskyConf s = Inr conf)
     \<and> ((\<exists>err. readTwoskyConf s = Inl err) \<longrightarrow>
          (\<exists>e. main s = ([], Panicked e))
          \<or> main s = usage ''need a command'' \<or> main s = usage [])"
proof -
  have ran: "([] |\<in>| fmran (Languages conf)) = (\<exists>lang. fmlookup (Languages conf) lang = Some [])"
    by (auto simp: fmlookup_ran_iff)
  have m: "(\<exists>err. readTwoskyConf s = Inl err) \<longrightarrow>
          (\<exists>e. main s = ([], Panicked e))
          \<or> main s = usage ''need a command'' \<or> main s = usage []"
    by (auto simp: main_def Let_def split: list.splits sum.splits)
  from assms ran m show ?thesis
    by (auto simp: readTwoskyConf_def)
qed

theorem readTwoskyConf_errors_witness:
  "readFile exSysNoLanguages twoskyConfFile = Inr ''conf''
   \<and> readTwoskyConf exSysNoLanguages = Inr (exConf\<lparr>Languages := fmempty\<rparr>)
   \<and> readTwoskyConf (exSys\<lparr>jsonConf := (\<lambda>b. Inr [])\<rparr>) = Inl (ErrConfEmpty twoskyConfFile)
   \<and> main (exSys\<lparr>jsonConf := (\<lambda>b. Inr [])\<rparr>) = ([], Panicked (ErrConfEmpty twoskyConfFile))"
proof -
  let ?e = "exSys\<lparr>jsonConf := (\<lambda>b. Inr [])\<rparr>"
  have r: "readFile exSysNoLanguages twoskyConfFile = Inr ''conf''"
    by (simp add: exSysNoLanguages_def exSys_def twoskyConfFile_def)
  have r': "readFile ?e twoskyConfFile = Inr ''conf''"
    by (simp add: exSys_def twoskyConfFile_def)
  have j: "jsonConf exSysNoLanguages ''conf'' = Inr (exConf\<lparr>Languages := fmempty\<rparr> # [])"
    by (simp add: exSysNoLanguages_def)
  have j': "jsonConf ?e ''conf'' = Inr []"
    by simp
  have a: "readTwoskyConf exSysNoLanguages = Inr (exConf\<lparr>Languages := fmempty\<rparr>)"
    using readTwoskyConf_errors [OF r, of "exConf\<lparr>Languages := fmempty\<rparr>" "[]"] j by simp
  have b: "readTwoskyConf ?e = Inl (ErrConfEmpty twoskyConfFile)"
    using readTwoskyConf_errors [OF r'] j' by simp
  have c: "main ?e = ([], Panicked (ErrConfEmpty twoskyConfFile))"
    by code_simp
  from r a b c show ?thesis by blast
qed

theorem empty_language_list_counterexample:
  "jsonConf exSysNoLanguages ''conf'' = Inr [exConf\<lparr>Languages := fmempty\<rparr>]
   \<and> readTwoskyConf exSysNoLanguages = Inr (exConf\<lparr>Languages := fmempty\<rparr>)
   \<and> main exSysNoLanguages = ([], Returned None)"
proof -
  have a: "jsonConf exSysNoLanguages ''conf'' = Inr [exConf\<lparr>Languages := fmempty\<rparr>]"
    by (simp add: exSysNoLanguages_def)
  have b: "readTwoskyConf exSysNoLanguages = Inr (exConf\<lparr>Languages := fmempty\<rparr>)"
    by code_simp
  have c: "main exSysNoLanguages = ([], Returned None)"
    by code_simp
  from a b c show ?thesis by blast
qed


section \<open>Query strings: escaping, parsing and encoding\<close>

lemma lt16_cases:
  "n < 16 \<Longrightarrow> n \<in> {0, 1, 2, 3, 4, 5, 6, 7, 8, 9, 10, 11, 12, 13, 14, 15::nat}"
  by (simp only: insert_iff empty_iff) arith

lemma ishex_upperhex: "n < 16 \<Longrightarrow> ishex (upperhex n)"
  by (drule lt16_cases) (auto simp: upperhex_def ishex_def)

lemma unhex_upperhex: "n < 16 \<Longrightarrow> unhex (upperhex n) = n"
  by (drule lt16_cases) (auto simp: upperhex_def unhex_def)

lemma upperhex_not_sep:
  "n < 16 \<Longrightarrow> upperhex n \<noteq> CHR ''&'' \<and> upperhex n \<noteq> CHR ''='' \<and> upperhex n \<noteq> CHR '';''"
  by (drule lt16_cases) (auto simp: upperhex_def)

lemma of_char_div16: "(of_char c :: nat) div 16 < 16"
proof -
  have "(of_char c :: nat) < 256" by simp
  then show ?thesis by arith
qed

lemma QueryUnescape_plain:
  "c \<noteq> CHR ''%'' \<Longrightarrow>
   QueryUnescape (c # rest) = map_option ((#) (if c = CHR ''+'' then CHR '' '' else c)) (QueryUnescape rest)"
  by (cases rest rule: QueryUnescape.cases) auto

lemma QueryUnescape_percent:
  "ishex d \<Longrightarrow> ishex e \<Longrightarrow>
   QueryUnescape (CHR ''%'' # d # e # rest)
     = map_option ((#) (char_of (unhex d * 16 + unhex e))) (QueryUnescape rest)"
  by simp

lemma shouldEscape_special:
  "shouldEscape CHR ''%''" "shouldEscape CHR ''+''" "shouldEscape CHR ''&''"
  "shouldEscape CHR ''=''" "shouldEscape CHR '';''" "shouldEscape CHR '' ''"
  by (simp_all add: shouldEscape_def)

lemma QueryUnescape_escapeByte:
  "QueryUnescape (escapeByte c @ rest) = map_option ((#) c) (QueryUnescape rest)"
proof (cases "shouldEscape c")
  case False
  then have "c \<noteq> CHR ''%''" "c \<noteq> CHR ''+''"
    using shouldEscape_special by auto
  with False show ?thesis
    by (simp add: escapeByte_def QueryUnescape_plain)
next
  case True
  show ?thesis
  proof (cases "c = CHR '' ''")
    case True
    then show ?thesis
      by (simp add: escapeByte_def shouldEscape_special QueryUnescape_plain)
  next
    case False
    have m: "(of_char c :: nat) mod 16 < 16" by simp
    have "char_of ((of_char c :: nat) div 16 * 16 + (of_char c :: nat) mod 16) = c"
      by simp
    with False True show ?thesis
      by (simp add: escapeByte_def QueryUnescape_percent ishex_upperhex unhex_upperhex
          of_char_div16 m del: QueryUnescape.simps)
  qed
qed

lemma QueryUnescape_QueryEscape: "QueryUnescape (QueryEscape str) = Some str"
  by (induction str) (simp_all add: QueryEscape_def QueryUnescape_escapeByte)

lemma escapeByte_no_sep:
  "x \<in> set (escapeByte c) \<Longrightarrow> x \<noteq> CHR ''&'' \<and> x \<noteq> CHR ''='' \<and> x \<noteq> CHR '';''"
  using upperhex_not_sep [OF of_char_div16 [of c]] upperhex_not_sep [of "(of_char c :: nat) mod 16"]
    shouldEscape_special
  by (auto simp: escapeByte_def split: if_splits)

lemma QueryEscape_no_sep:
  "x \<in> set (QueryEscape str) \<Longrightarrow> x \<noteq> CHR ''&'' \<and> x \<noteq> CHR ''='' \<and> x \<noteq> CHR '';''"
  using escapeByte_no_sep by (auto simp: QueryEscape_def)

lemma strings_Cut_absent:
  "sep \<notin> set str \<Longrightarrow> strings_Cut sep (str @ sep # rest) = (str, rest)"
  "sep \<notin> set str \<Longrightarrow> strings_Cut sep str = (str, [])"
  by (induction str) (auto simp: strings_Cut_def)

lemma strings_Cut_present:
  "sep \<in> set str \<Longrightarrow>
   strings_Cut sep (str @ tl1) = (fst (strings_Cut sep str), snd (strings_Cut sep str) @ tl1)"
  by (induction str) (auto simp: strings_Cut_def)

lemma parsePair_Nil: "parsePair m [] = m"
  by (simp add: parsePair_def)

lemma parseQuery_single:
  "CHR ''&'' \<notin> set p \<Longrightarrow> parseQuery m p = parsePair m p"
proof (cases p)
  case Nil
  then show ?thesis by (simp add: parsePair_Nil)
next
  case (Cons a list)
  assume "CHR ''&'' \<notin> set p"
  then have "strings_Cut CHR ''&'' (a # list) = (a # list, [])"
    unfolding Cons by (rule strings_Cut_absent(2))
  then show ?thesis
    unfolding Cons by simp
qed

lemma parseQuery_append:
  "parseQuery m (b @ CHR ''&'' # r) = parseQuery (parseQuery m b) r"
proof (induction m b rule: parseQuery.induct)
  case (1 m)
  then show ?case
    by (simp add: strings_Cut_def parsePair_Nil)
next
  case (2 m c cs)
  show ?case
  proof (cases "CHR ''&'' \<in> set (c # cs)")
    case True
    have "parseQuery m ((c # cs) @ CHR ''&'' # r)
        = parseQuery (parsePair m (fst (strings_Cut CHR ''&'' (c # cs))))
            (snd (strings_Cut CHR ''&'' (c # cs)) @ CHR ''&'' # r)"
      using strings_Cut_present [OF True, of "CHR ''&'' # r"]
      by (simp del: set_simps)
    also have "\<dots> = parseQuery (parseQuery m (c # cs)) r"
      using 2 by simp
    finally show ?thesis .
  next
    case False
    have "parseQuery m ((c # cs) @ CHR ''&'' # r) = parseQuery (parsePair m (c # cs)) r"
      using strings_Cut_absent(1) [OF False, of r] by (simp del: set_simps)
    moreover have "parseQuery m (c # cs) = parsePair m (c # cs)"
      using False by (rule parseQuery_single)
    ultimately show ?thesis by simp
  qed
qed

lemma piece_no_amp: "CHR ''&'' \<notin> set (piece kv)"
  using QueryEscape_no_sep by (auto simp: piece_def)

lemma piece_no_semi: "CHR '';'' \<notin> set (piece kv)"
  using QueryEscape_no_sep by (auto simp: piece_def)

lemma parsePair_piece:
  "parsePair m (piece (k, v)) = fmupd k (vals m k @ [v]) m"
proof -
  have "CHR ''='' \<notin> set (QueryEscape k)"
    using QueryEscape_no_sep by blast
  then have c: "strings_Cut CHR ''='' (piece (k, v)) = (QueryEscape k, QueryEscape v)"
    by (simp add: piece_def strings_Cut_absent(1))
  have n: "piece (k, v) \<noteq> []"
    by (simp add: piece_def)
  show ?thesis
    using piece_no_semi [of "(k, v)"] n
    by (simp add: parsePair_def c QueryUnescape_QueryEscape)
qed

lemma writePair_piece:
  "writePair (QueryEscape k) v buf = (if buf \<noteq> [] then buf @ ''&'' else buf) @ piece (k, v)"
  by (simp add: writePair_def piece_def)

lemma parseQuery_pieces:
  "parseQuery m (fold (\<lambda>kv. writePair (QueryEscape (fst kv)) (snd kv)) kvs []) = fold addPair kvs m"
proof (induction kvs arbitrary: m rule: rev_induct)
  case Nil
  then show ?case by simp
next
  case (snoc kv kvs)
  let ?buf = "fold (\<lambda>kv. writePair (QueryEscape (fst kv)) (snd kv)) kvs []"
  have s: "parseQuery m' (piece kv) = addPair kv m'" for m'
    using parseQuery_single [OF piece_no_amp, of m' kv] parsePair_piece [of m' "fst kv" "snd kv"]
    by (simp add: addPair_def)
  have w: "fold (\<lambda>kv. writePair (QueryEscape (fst kv)) (snd kv)) (kvs @ [kv]) []
      = (if ?buf \<noteq> [] then ?buf @ ''&'' else ?buf) @ piece kv"
    by (simp add: writePair_piece)
  show ?case
  proof (cases "?buf = []")
    case True
    with snoc [of m] have "fold addPair kvs m = m" by simp
    with True s show ?thesis
      unfolding w by simp
  next
    case False
    then show ?thesis
      unfolding w using snoc [of m] s by (simp add: parseQuery_append)
  qed
qed

lemma fold_nested:
  "fold (\<lambda>k. fold (f k) (g k)) ks b
     = fold (\<lambda>kv. f (fst kv) (snd kv)) (concat (map (\<lambda>k. map (Pair k) (g k)) ks)) b"
  by (induction ks arbitrary: b) (simp_all add: fold_map comp_def)

lemma vals_fold_addPair_same:
  "vals (fold addPair (map (Pair k) xs) m) k' = (if k' = k then vals m k @ xs else vals m k')"
  by (induction xs arbitrary: m) (auto simp: addPair_def vals_def)

lemma fmdom_fold_addPair_same:
  "fmdom (fold addPair (map (Pair k) xs) m) = (if xs = [] then fmdom m else finsert k (fmdom m))"
  by (induction xs arbitrary: m) (auto simp: addPair_def)

lemma fold_addPair_keys:
  "distinct ks \<Longrightarrow>
   vals (fold addPair (concat (map (\<lambda>k. map (Pair k) (g k)) ks)) m) k
     = (if k \<in> set ks then vals m k @ g k else vals m k)"
  by (induction ks arbitrary: m) (auto simp: vals_fold_addPair_same)

lemma fmdom_fold_addPair_keys:
  "fmdom (fold addPair (concat (map (\<lambda>k. map (Pair k) (g k)) ks)) m)
     = fmdom m |\<union>| ffilter (\<lambda>k. g k \<noteq> []) (fset_of_list ks)"
  by (induction ks arbitrary: m) (auto simp: fmdom_fold_addPair_same)

lemma fmlookup_vals:
  "fmlookup m k = (if k |\<in>| fmdom m then Some (vals m k) else None)"
  by (auto simp: vals_def fmdom_notD split: option.splits dest: fmdomI)

lemma vals_fmempty: "vals fmempty k = []"
  by (simp add: vals_def)

lemma sort_sorted_list_of_fset: "sort (sorted_list_of_fset X) = sorted_list_of_fset X"
  by (simp add: sorted_list_of_fset.rep_eq sorted_sort_id)

lemma Encode_pieces:
  "Encode v = fold (\<lambda>kv. writePair (QueryEscape (fst kv)) (snd kv))
     (concat (map (\<lambda>k. map (Pair k) (vals v k)) (sorted_list_of_fset (fmdom v)))) []"
proof (cases "fmdom v = {||}")
  case True
  then show ?thesis
    by (simp add: Encode_def encodeKeys_def sorted_list_of_fset.rep_eq)
next
  case False
  then show ?thesis
    by (simp add: Encode_def encodeKeys_def sort_sorted_list_of_fset fold_nested)
qed

lemma encodeKeys_any_order:
  assumes "distinct ks" and "set ks = fset (fmdom v)"
  shows "encodeKeys ks v = Encode v"
proof -
  have "sort ks = sorted_list_of_set (set ks)"
    using assms(1) by (simp add: sorted_list_of_set_sort_remdups distinct_remdups_id)
  then have "sort ks = sort (sorted_list_of_fset (fmdom v))"
    using assms(2) by (simp add: sorted_list_of_fset.rep_eq sorted_sort_id)
  then show ?thesis
    by (simp add: Encode_def encodeKeys_def)
qed

lemma parseQuery_Encode:
  assumes "\<forall>k vs. fmlookup v k = Some vs \<longrightarrow> vs \<noteq> []"
  shows "parseQuery fmempty (Encode v) = v"
proof (rule fmap_ext)
  fix k
  let ?ks = "sorted_list_of_fset (fmdom v)"
  let ?r = "fold addPair (concat (map (\<lambda>k. map (Pair k) (vals v k)) ?ks)) fmempty"
  have r: "parseQuery fmempty (Encode v) = ?r"
    by (simp add: Encode_pieces parseQuery_pieces)
  have ne: "vals v k \<noteq> []" if "k |\<in>| fmdom v" for k
    using that assms by (auto simp: vals_def split: option.splits)
  have d: "fmdom ?r = fmdom v"
    using ne by (auto simp: fmdom_fold_addPair_keys fset_of_list.rep_eq sorted_list_of_fset.rep_eq)
  have "distinct ?ks"
    by (simp add: sorted_list_of_fset.rep_eq)
  then have v: "vals ?r k = (if k |\<in>| fmdom v then vals v k else [])"
    by (simp add: fold_addPair_keys vals_fmempty sorted_list_of_fset.rep_eq)
  show "fmlookup (parseQuery fmempty (Encode v)) k = fmlookup v k"
    unfolding r by (simp add: fmlookup_vals [of ?r] fmlookup_vals [of v] d v)
qed

lemma parsePair_nonempty:
  "\<forall>k vs. fmlookup m k = Some vs \<longrightarrow> vs \<noteq> [] \<Longrightarrow>
   \<forall>k vs. fmlookup (parsePair m p) k = Some vs \<longrightarrow> vs \<noteq> []"
  by (auto simp: parsePair_def split: option.splits if_splits)

lemma parseQuery_nonempty:
  "\<forall>k vs. fmlookup m k = Some vs \<longrightarrow> vs \<noteq> [] \<Longrightarrow>
   \<forall>k vs. fmlookup (parseQuery m q) k = Some vs \<longrightarrow> vs \<noteq> []"
proof (induction m q rule: parseQuery.induct)
  case (1 m)
  then show ?case by simp
next
  case (2 m c cs)
  from 2(2) have "\<forall>k vs. fmlookup (parsePair m (fst (strings_Cut CHR ''&'' (c # cs)))) k = Some vs
      \<longrightarrow> vs \<noteq> []"
    by (rule parsePair_nonempty)
  from 2(1) [OF this] show ?case by simp
qed

lemma translationURL_eq:
  "translationURL h oldURL baseFile projectID lang =
     (if oldURL < length h then
        Inr (length h,
             h @ [(h ! oldURL)\<lparr>RawQuery := Encode (managed (Query (h ! oldURL)) baseFile projectID lang)\<rparr>])
      else Inl ErrNilDeref)"
  by (simp add: translationURL_def managed_def Let_def nth_append)

lemma managed_nonempty:
  "\<forall>k vs. fmlookup q k = Some vs \<longrightarrow> vs \<noteq> [] \<Longrightarrow>
   \<forall>k vs. fmlookup (managed q baseFile projectID lang) k = Some vs \<longrightarrow> vs \<noteq> []"
  by (auto simp: managed_def Values_Set_def split: if_splits)

lemma Query_nonempty: "\<forall>k vs. fmlookup (Query u) k = Some vs \<longrightarrow> vs \<noteq> []"
  unfolding Query_def by (rule parseQuery_nonempty) simp

lemma Query_managed:
  "Query (u\<lparr>RawQuery := Encode (managed (Query u) baseFile projectID lang)\<rparr>)
     = managed (Query u) baseFile projectID lang"
  using parseQuery_Encode [OF managed_nonempty [OF Query_nonempty]]
  by (simp add: Query_def)

lemma managed_lookup:
  "fmlookup (managed q baseFile projectID lang) k =
     (if k = ''language'' then Some [lang]
      else if k = ''project'' then Some [projectID]
      else if k = ''filename'' then Some [baseFile]
      else if k = ''format'' then Some [''json'']
      else fmlookup q k)"
  by (simp add: managed_def Values_Set_def)

lemma managed_idem:
  "managed (managed q baseFile projectID lang) baseFile projectID lang
     = managed q baseFile projectID lang"
  by (rule fmap_ext) (simp add: managed_lookup)

lemma exTask_eval: "translationURL exHeap 0 ''en.json'' ''home'' ''fr'' = Inr (1, exHeap @ [exTask])"
  by code_simp

lemma taskURLs_frame:
  "d < length h \<Longrightarrow>
   \<exists>uris h'. taskURLs h d p langs = Inr (uris, h') \<and> take (length h) h' = h
      \<and> length h' = length h + length langs \<and> length uris = length langs
      \<and> (\<forall>u \<in> set uris. length h \<le> u \<and> u < length h')"
proof (induction langs arbitrary: h)
  case Nil
  then show ?case by simp
next
  case (Cons lang langs)
  let ?x = "(h ! d)\<lparr>RawQuery := Encode (managed (Query (h ! d)) defaultBaseFile p lang)\<rparr>"
  have t: "translationURL h d defaultBaseFile p lang = Inr (length h, h @ [?x])"
    using Cons.prems by (simp add: translationURL_eq)
  from Cons.prems have "d < length (h @ [?x])" by simp
  from Cons.IH [OF this] obtain uris h' where
    r: "taskURLs (h @ [?x]) d p langs = Inr (uris, h')"
    and k: "take (length (h @ [?x])) h' = h @ [?x]"
    and l: "length h' = length (h @ [?x]) + length langs" "length uris = length langs"
    and f: "\<forall>u \<in> set uris. length (h @ [?x]) \<le> u \<and> u < length h'"
    by blast
  have "take (length h) (take (length (h @ [?x])) h') = h"
    unfolding k by simp
  then have k': "take (length h) h' = h"
    by (simp add: min_def)
  from t r k' l f show ?case
    by auto
qed

section \<open>The URL of a translation\<close>



text \<open>
  C10.  On a valid pointer \<open>translationURL\<close> returns a pointer that was not allocated
  before, and every URL that was in the store, the input URL and its raw query among
  them, is as it was.  The same holds of the whole loop in which the download command
  builds one task URL for each language from the shared endpoint URL, and so after each
  of its rounds.
\<close>

theorem translationURL_frame:
  assumes "oldURL < length h"
  shows "\<exists>uri h'. translationURL h oldURL baseFile projectID lang = Inr (uri, h')
      \<and> uri = length h \<and> uri \<noteq> oldURL \<and> length h' = Suc (length h)
      \<and> (\<forall>a < length h. h' ! a = h ! a)
      \<and> h' ! oldURL = h ! oldURL \<and> RawQuery (h' ! oldURL) = RawQuery (h ! oldURL)
      \<and> (\<exists>uris h''. taskURLs h oldURL projectID langs = Inr (uris, h'')
            \<and> (\<forall>a < length h. h'' ! a = h ! a) \<and> h'' ! oldURL = h ! oldURL
            \<and> length uris = length langs
            \<and> (\<forall>u \<in> set uris. length h \<le> u \<and> u < length h''))"
proof -
  from taskURLs_frame [OF assms, of projectID langs] obtain uris h'' where
    r: "taskURLs h oldURL projectID langs = Inr (uris, h'')"
    and k: "take (length h) h'' = h"
    and l: "length uris = length langs"
    and f: "\<forall>u \<in> set uris. length h \<le> u \<and> u < length h''"
    by blast
  have n: "h'' ! a = h ! a" if "a < length h" for a
  proof -
    from that have "take (length h) h'' ! a = h'' ! a" by simp
    with k show ?thesis by simp
  qed
  from assms r l f n show ?thesis
    by (simp add: translationURL_eq nth_append)
qed

theorem translationURL_frame_witness:
  "(0::nat) < length exHeap
   \<and> translationURL exHeap 0 ''en.json'' ''home'' ''fr'' = Inr (1, exHeap @ [exTask])
   \<and> (exHeap @ [exTask]) ! 0 = exHeap ! 0
   \<and> (\<exists>uris h''. taskURLs exHeap 0 ''home'' [''de'', ''fr''] = Inr (uris, h'')
         \<and> h'' ! 0 = exHeap ! 0 \<and> length uris = 2)"
proof -
  have l: "(0::nat) < length exHeap"
    by (simp add: exHeap_def)
  from translationURL_frame [OF l, of "''en.json''" "''home''" "''fr''" "[''de'', ''fr'']"]
    exTask_eval l
  show ?thesis by auto
qed

text \<open>
  C8.  A second call of \<open>translationURL\<close> with the same arguments, on the store the
  first call left, returns a new URL equal to the first in every field, so the two print
  as the same string; a call on the result of the first call also returns an equal URL.
  The encoded query does not depend on the order in which the range yields the keys of
  the map of query values.
\<close>

theorem translationURL_repeatable:
  assumes "translationURL h oldURL baseFile projectID lang = Inr (u1, h1)"
  shows "(\<exists>u2 h2. translationURL h1 oldURL baseFile projectID lang = Inr (u2, h2)
            \<and> u2 \<noteq> u1 \<and> h2 ! u1 = h1 ! u1 \<and> h2 ! u2 = h2 ! u1
            \<and> RawQuery (h2 ! u2) = RawQuery (h2 ! u1)
            \<and> urlString s (h2 ! u2) = urlString s (h2 ! u1))
     \<and> (\<exists>u3 h3. translationURL h1 u1 baseFile projectID lang = Inr (u3, h3)
            \<and> h3 ! u3 = h1 ! u1 \<and> urlString s (h3 ! u3) = urlString s (h1 ! u1))
     \<and> (\<forall>q ks. distinct ks \<and> set ks = fset (fmdom q) \<longrightarrow> encodeKeys ks q = Encode q)"
proof -
  let ?x = "(h ! oldURL)\<lparr>RawQuery := Encode (managed (Query (h ! oldURL)) baseFile projectID lang)\<rparr>"
  from assms have o: "oldURL < length h" and u1: "u1 = length h" and h1: "h1 = h @ [?x]"
    by (auto simp: translationURL_eq split: if_splits)
  have a: "\<exists>u2 h2. translationURL h1 oldURL baseFile projectID lang = Inr (u2, h2)
            \<and> u2 \<noteq> u1 \<and> h2 ! u1 = h1 ! u1 \<and> h2 ! u2 = h2 ! u1
            \<and> RawQuery (h2 ! u2) = RawQuery (h2 ! u1)
            \<and> urlString s (h2 ! u2) = urlString s (h2 ! u1)"
    using o by (simp add: translationURL_eq u1 h1 nth_append)
  have q: "Query ?x = managed (Query (h ! oldURL)) baseFile projectID lang"
    by (rule Query_managed)
  have b: "\<exists>u3 h3. translationURL h1 u1 baseFile projectID lang = Inr (u3, h3)
            \<and> h3 ! u3 = h1 ! u1 \<and> urlString s (h3 ! u3) = urlString s (h1 ! u1)"
    by (simp add: translationURL_eq u1 h1 nth_append q managed_idem)
  from a b encodeKeys_any_order show ?thesis
    by blast
qed

theorem translationURL_repeatable_witness:
  "translationURL exHeap 0 ''en.json'' ''home'' ''fr'' = Inr (1, exHeap @ [exTask])
   \<and> translationURL (exHeap @ [exTask]) 0 ''en.json'' ''home'' ''fr''
       = Inr (2, exHeap @ [exTask, exTask])
   \<and> translationURL (exHeap @ [exTask]) 1 ''en.json'' ''home'' ''fr''
       = Inr (2, exHeap @ [exTask, exTask])
   \<and> (\<exists>u2 h2. translationURL (exHeap @ [exTask]) 0 ''en.json'' ''home'' ''fr'' = Inr (u2, h2)
         \<and> urlString exSys (h2 ! u2) = urlString exSys (h2 ! 1))"
proof -
  have a: "translationURL (exHeap @ [exTask]) 0 ''en.json'' ''home'' ''fr''
       = Inr (2, exHeap @ [exTask, exTask])"
    by code_simp
  have b: "translationURL (exHeap @ [exTask]) 1 ''en.json'' ''home'' ''fr''
       = Inr (2, exHeap @ [exTask, exTask])"
    by code_simp
  from translationURL_repeatable [OF exTask_eval, of exSys] exTask_eval a b show ?thesis
    by blast
qed


section \<open>Paths of locale files\<close>

lemma splitOn_absent: "c \<notin> set str \<Longrightarrow> splitOn c str = [str]"
  by (induction str) auto

lemma json_name_proper:
  "lang @ ''.json'' \<noteq> [] \<and> lang @ ''.json'' \<noteq> ''.'' \<and> lang @ ''.json'' \<noteq> ''..''"
  by (auto dest: arg_cong [where f = length])

lemma basePath_eq: "filepath_Join [localesDir, defaultBaseFile] = ''client/src/__locales/en.json''"
  by code_simp

lemma locDir_eq: "filepath_Clean localesDir = ''client/src/__locales''"
  by code_simp

lemma localePath_plain:
  assumes "CHR ''/'' \<notin> set lang"
  shows "filepath_Join [localesDir, lang @ ''.json''] = ''client/src/__locales/'' @ lang @ ''.json''"
proof -
  have "CHR ''/'' \<notin> set (lang @ ''.json'')"
    using assms by simp
  then have s: "splitOn CHR ''/'' (lang @ ''.json'') = [lang @ ''.json'']"
    by (rule splitOn_absent)
  have sp: "splitOn CHR ''/'' (''./client/src/__locales/'' @ lang @ ''.json'')
      = [''.'', ''client'', ''src'', ''__locales'', lang @ ''.json'']"
    using s by simp
  show ?thesis
    using json_name_proper [of lang]
    by (simp add: filepath_Join_def localesDir_def filepath_Clean_def s Let_def)
qed

lemma localePath_is_base:
  "CHR ''/'' \<notin> set lang \<Longrightarrow>
   filepath_Join [localesDir, lang @ ''.json''] = filepath_Join [localesDir, defaultBaseFile]
     \<longleftrightarrow> lang = ''en''"
  by (auto simp: localePath_plain basePath_eq)


section \<open>Rounding to binary64\<close>










section \<open>The summary command\<close>

lemma summaryLoop_all_read:
  assumes "\<forall>lang \<in> set keys. filepath_Join [localesDir, lang @ ''.json''] \<noteq> basePath \<longrightarrow>
             (\<exists>loc. readLocales s (filepath_Join [localesDir, lang @ ''.json'']) = Inr loc)"
  shows "summaryLoop s basePath sz keys =
           (map (\<lambda>lang. Stdout (summaryLine lang
                   (float64_div
                      (float64_mul
                         (float64_of_nat
                            (len (projr (readLocales s (filepath_Join [localesDir, lang @ ''.json'']))))) 
                         (Finite 100))
                      sz)))
              (filter (\<lambda>lang. filepath_Join [localesDir, lang @ ''.json''] \<noteq> basePath) keys),
            None)"
  using assms
proof (induction keys)
  case Nil
  then show ?case by simp
next
  case (Cons lang keys)
  then have ih: "summaryLoop s basePath sz keys =
           (map (\<lambda>lang. Stdout (summaryLine lang
                   (float64_div
                      (float64_mul
                         (float64_of_nat
                            (len (projr (readLocales s (filepath_Join [localesDir, lang @ ''.json'']))))) 
                         (Finite 100))
                      sz)))
              (filter (\<lambda>lang. filepath_Join [localesDir, lang @ ''.json''] \<noteq> basePath) keys),
            None)"
    by simp
  show ?case
  proof (cases "filepath_Join [localesDir, lang @ ''.json''] = basePath")
    case True
    with ih show ?thesis by simp
  next
    case False
    with Cons.prems obtain loc where
      "readLocales s (filepath_Join [localesDir, lang @ ''.json'']) = Inr loc"
      by auto
    with False ih show ?thesis by simp
  qed
qed

lemma summaryLoop_first_failure:
  "filepath_Join [localesDir, lang @ ''.json''] \<noteq> basePath \<Longrightarrow>
   readLocales s (filepath_Join [localesDir, lang @ ''.json'']) = Inl err \<Longrightarrow>
   summaryLoop s basePath sz (lang # keys) = ([], Some (Wrap ''summary: reading locales'' err))"
  by simp

lemma exKeys: "sorted_list_of_fset (fmdom exLanguages) = [''de'', ''en'', ''fr'']"
  by code_simp

lemma exRead:
  "readLocales exSys ''client/src/__locales/en.json'' = Inr exLocales"
  "readLocales exSys ''client/src/__locales/de.json'' = Inr exLocales"
  "readLocales exSys ''client/src/__locales/fr.json'' = Inr (fmap_of_list [(''a'', ''u'')])"
  by (simp_all add: readLocales_def exSys_def)




text \<open>
  C9, as the code has it.  When the base file and the file of every language that is not
  skipped are read, \<open>summary\<close> reports exactly the configured languages whose file path
  differs from the base file path, in increasing order of language code.  The language
  \<open>en\<close> has the base file path, so it is never reported; every language code without a
  path separator other than \<open>en\<close> has a different path, so such a language is reported
  whenever it is configured.  The configured base language plays no part: the summary
  command reads only the language set.
\<close>

theorem summary_reports:
  assumes "readLocales s (filepath_Join [localesDir, defaultBaseFile]) = Inr baseLoc"
    and "\<forall>lang. lang |\<in>| fmdom langs \<and>
           filepath_Join [localesDir, lang @ ''.json''] \<noteq> filepath_Join [localesDir, defaultBaseFile] \<longrightarrow>
           (\<exists>loc. readLocales s (filepath_Join [localesDir, lang @ ''.json'']) = Inr loc)"
  shows "(\<exists>f. summary s langs =
            (map (\<lambda>lang. Stdout (summaryLine lang (f lang)))
               (filter (\<lambda>lang. filepath_Join [localesDir, lang @ ''.json'']
                                  \<noteq> filepath_Join [localesDir, defaultBaseFile])
                  (sorted_list_of_fset (fmdom langs))),
             None))
     \<and> filepath_Join [localesDir, ''en'' @ ''.json''] = filepath_Join [localesDir, defaultBaseFile]
     \<and> (\<forall>lang. CHR ''/'' \<notin> set lang \<and> lang \<noteq> ''en'' \<longrightarrow>
           filepath_Join [localesDir, lang @ ''.json''] \<noteq> filepath_Join [localesDir, defaultBaseFile])
     \<and> runCommand s ''summary'' h uri projectID (conf\<lparr>BaseLangcode := b\<rparr>)
         = runCommand s ''summary'' h uri projectID conf"
proof -
  let ?base = "filepath_Join [localesDir, defaultBaseFile]"
  have "\<forall>lang \<in> set (sorted_list_of_fset (fmdom langs)).
          filepath_Join [localesDir, lang @ ''.json''] \<noteq> ?base \<longrightarrow>
          (\<exists>loc. readLocales s (filepath_Join [localesDir, lang @ ''.json'']) = Inr loc)"
    using assms(2) by (simp add: sorted_list_of_fset.rep_eq)
  from summaryLoop_all_read [OF this, of "float64_of_nat (len baseLoc)"] assms(1)
  have a: "\<exists>f. summary s langs =
            (map (\<lambda>lang. Stdout (summaryLine lang (f lang)))
               (filter (\<lambda>lang. filepath_Join [localesDir, lang @ ''.json''] \<noteq> ?base)
                  (sorted_list_of_fset (fmdom langs))),
             None)"
    by (auto simp: summary_def Let_def)
  have b: "filepath_Join [localesDir, ''en'' @ ''.json''] = ?base"
    by (simp add: defaultBaseFile_def)
  have c: "\<forall>lang. CHR ''/'' \<notin> set lang \<and> lang \<noteq> ''en'' \<longrightarrow>
           filepath_Join [localesDir, lang @ ''.json''] \<noteq> ?base"
    by (simp add: localePath_is_base)
  have d: "runCommand s ''summary'' h uri projectID (conf\<lparr>BaseLangcode := b\<rparr>)
         = runCommand s ''summary'' h uri projectID conf"
    by (simp add: runCommand_def)
  from a b c d show ?thesis by blast
qed

theorem summary_reports_witness:
  "readLocales exSys (filepath_Join [localesDir, defaultBaseFile]) = Inr exLocales
   \<and> (\<exists>f. summary exSys exLanguages
          = (map (\<lambda>lang. Stdout (summaryLine lang (f lang))) [''de'', ''fr''], None))
   \<and> filepath_Join [localesDir, ''fr'' @ ''.json''] \<noteq> filepath_Join [localesDir, defaultBaseFile]"
proof -
  let ?base = "filepath_Join [localesDir, defaultBaseFile]"
  have p: "filepath_Join [localesDir, ''de'' @ ''.json''] = ''client/src/__locales/de.json''"
    "filepath_Join [localesDir, ''fr'' @ ''.json''] = ''client/src/__locales/fr.json''"
    "filepath_Join [localesDir, ''en'' @ ''.json''] = ''client/src/__locales/en.json''"
    using localePath_plain [of "''de''"] localePath_plain [of "''fr''"] localePath_plain [of "''en''"]
    by simp_all
  have b: "readLocales exSys ?base = Inr exLocales"
    by (simp add: basePath_eq exRead)
  have d: "fmdom exLanguages = {|''fr'', ''en'', ''de''|}"
    by (simp add: exLanguages_def)
  have h: "\<forall>lang. lang |\<in>| fmdom exLanguages \<and>
           filepath_Join [localesDir, lang @ ''.json''] \<noteq> ?base \<longrightarrow>
           (\<exists>loc. readLocales exSys (filepath_Join [localesDir, lang @ ''.json'']) = Inr loc)"
    unfolding d using p exRead by auto
  have f: "filter (\<lambda>lang. filepath_Join [localesDir, lang @ ''.json''] \<noteq> ?base)
             (sorted_list_of_fset (fmdom exLanguages)) = [''de'', ''fr'']"
    unfolding exKeys using p by (simp add: basePath_eq)
  note t = summary_reports [OF b h]
  from t f have r: "\<exists>f. summary exSys exLanguages
          = (map (\<lambda>lang. Stdout (summaryLine lang (f lang))) [''de'', ''fr''], None)"
    by simp
  from t have "\<forall>lang. CHR ''/'' \<notin> set lang \<and> lang \<noteq> ''en'' \<longrightarrow>
      filepath_Join [localesDir, lang @ ''.json''] \<noteq> ?base"
    by blast
  from this [rule_format, of "''fr''"]
  have n: "filepath_Join [localesDir, ''fr'' @ ''.json''] \<noteq> ?base"
    by simp
  from b r n show ?thesis
    by blast
qed

theorem summary_base_locale_counterexample:
  "readTwoskyConf exSysDotEn
     = Inr (exConf\<lparr>Languages := fmap_of_list [(''./en'', ''English'')], BaseLangcode := ''./en''\<rparr>)
   \<and> ''./en'' \<noteq> ''en''
   \<and> filepath_Join [localesDir, ''./en'' @ ''.json''] = filepath_Join [localesDir, defaultBaseFile]
   \<and> main exSysDotEn = ([], Returned None)
   \<and> summary exSys exLanguagesMissing
     = ([], Some (Wrap ''summary: reading locales'' (ErrOS ''client/src/__locales/aa.json'')))"
proof -
  have a: "readTwoskyConf exSysDotEn
     = Inr (exConf\<lparr>Languages := fmap_of_list [(''./en'', ''English'')], BaseLangcode := ''./en''\<rparr>)"
    by code_simp
  have p: "filepath_Join [localesDir, ''./en'' @ ''.json''] = filepath_Join [localesDir, defaultBaseFile]"
    by code_simp
  have b: "main exSysDotEn = ([], Returned None)"
    by code_simp
  have c: "summary exSys exLanguagesMissing
     = ([], Some (Wrap ''summary: reading locales'' (ErrOS ''client/src/__locales/aa.json'')))"
    by code_simp
  from a p b c show ?thesis by simp
qed




end
